theory Spec2Isabelle
  imports Complex_Main "HOL-Library.AList" "HOL-Library.Word"
begin

section \<open>Shared types (src/shared/types.ts, src/shared/constants.ts)\<close>

datatype DeviceType = CONTROLLER | TARGET

datatype ConnectionStatus = DISCONNECTED | CONNECTING | CONNECTED | PAIRED | ERROR

text \<open>
  \<^verbatim>\<open>DeviceInfo\<close>: the optional \<^verbatim>\<open>mac\<close> is \<open>None\<close> when the object has no such property,
  \<open>Some None\<close> when the property is there and holds \<^verbatim>\<open>undefined\<close> or \<^verbatim>\<open>null\<close>, and
  \<open>Some (Some m)\<close> when it holds the string \<open>m\<close>; \<open>macString\<close> reads it as the code's
  tests do, where \<^verbatim>\<open>undefined\<close>, \<^verbatim>\<open>null\<close> and a missing property are alike.
  The field \<^verbatim>\<open>id\<close> is called \<open>id'\<close> here, \<^verbatim>\<open>type\<close> is \<open>type'\<close>.
\<close>

record DeviceInfo =
  id' :: string
  name :: string
  ip :: string
  mac :: "string option option"
  type' :: DeviceType
  supportedCommands :: "string list"

definition macString :: "string option option \<Rightarrow> string option" where
  "macString v = (case v of Some (Some m) \<Rightarrow> Some m | _ \<Rightarrow> None)"

definition DEFAULT_AUTH_TOKEN_LENGTH :: nat where
  "DEFAULT_AUTH_TOKEN_LENGTH = 32"

definition ARROW_LEFT :: string where "ARROW_LEFT = ''arrow_left''"
definition ARROW_RIGHT :: string where "ARROW_RIGHT = ''arrow_right''"

definition INVALID_MESSAGE :: nat where "INVALID_MESSAGE = 100"
definition AUTHENTICATION_FAILED :: nat where "AUTHENTICATION_FAILED = 101"
definition INTERNAL_ERROR :: nat where "INTERNAL_ERROR = 103"

definition PROTOCOL_VERSION :: string where "PROTOCOL_VERSION = ''1.0.0''"

section \<open>Token generation (src/shared/utils.ts, generateToken)\<close>

text \<open>
  \<^verbatim>\<open>crypto.randomBytes(length).toString("hex")\<close>. The entropy is a parameter: a stream
  \<open>rnd\<close> of bytes, of which \<open>randomBytes\<close> takes the first \<open>n\<close>. Each byte is written as
  two lower-case hexadecimal digits.
\<close>

definition hexDigit :: "nat \<Rightarrow> char" where
  "hexDigit n = ''0123456789abcdef'' ! (n mod 16)"

definition toHex :: "8 word list \<Rightarrow> string" where
  "toHex bs = concat (map (\<lambda>b. [hexDigit (unat b div 16), hexDigit (unat b mod 16)]) bs)"

definition randomBytes :: "(nat \<Rightarrow> 8 word) \<Rightarrow> nat \<Rightarrow> 8 word list" where
  "randomBytes rnd n = map rnd [0..<n]"

definition generateToken :: "(nat \<Rightarrow> 8 word) \<Rightarrow> string" where
  "generateToken rnd = toHex (randomBytes rnd DEFAULT_AUTH_TOKEN_LENGTH)"

section \<open>Device registry (src/controller/deviceRegistry.ts)\<close>

record RegisteredDevice =
  deviceInfo :: DeviceInfo
  status :: ConnectionStatus
  lastSeen :: nat
  firstSeen :: nat
  connectionId :: "string option"
  authToken :: "string option"
  paired :: bool
  pairingToken :: "string option"
  pairingExpiration :: "nat option"

text \<open>
  The three \<^verbatim>\<open>Map\<close>s of the class are association lists in insertion order, as a
  JavaScript \<^verbatim>\<open>Map\<close> iterates: \<^verbatim>\<open>get\<close> is \<open>map_of\<close>, \<^verbatim>\<open>set\<close> is \<open>AList.update\<close>
  (an existing key keeps its place, a new key goes to the end), \<^verbatim>\<open>delete\<close> is
  \<open>AList.delete\<close>. \<^verbatim>\<open>Date.now()\<close> is the parameter \<open>now\<close>, milliseconds since the epoch.
  Log lines and emitted events are left out.
\<close>

record DeviceRegistry =
  devices :: "(string \<times> RegisteredDevice) list"
  ipToIdMap :: "(string \<times> string) list"
  macToIdMap :: "(string \<times> string) list"

definition emptyRegistry :: DeviceRegistry where
  "emptyRegistry = \<lparr>devices = [], ipToIdMap = [], macToIdMap = []\<rparr>"

text \<open>\<^verbatim>\<open>{...old, ...new}\<close>: every property that \<open>new\<close> has wins, a \<^verbatim>\<open>mac\<close> holding \<^verbatim>\<open>undefined\<close> included; only a missing \<^verbatim>\<open>mac\<close> keeps the old one.\<close>

definition mergeDeviceInfo :: "DeviceInfo \<Rightarrow> DeviceInfo \<Rightarrow> DeviceInfo" where
  "mergeDeviceInfo old new =
     new\<lparr>mac := (case mac new of None \<Rightarrow> mac old | Some v \<Rightarrow> Some v)\<rparr>"

text \<open>\<^verbatim>\<open>if (key) index.set(key, v)\<close> and \<^verbatim>\<open>if (key) index.delete(key)\<close>: an absent or empty key is falsy.\<close>

definition indexSet :: "string option \<Rightarrow> string \<Rightarrow> (string \<times> string) list \<Rightarrow> (string \<times> string) list" where
  "indexSet key v m = (case key of None \<Rightarrow> m | Some k \<Rightarrow> if k \<noteq> [] then AList.update k v m else m)"

definition indexDelete :: "string option \<Rightarrow> (string \<times> string) list \<Rightarrow> (string \<times> string) list" where
  "indexDelete key m = (case key of None \<Rightarrow> m | Some k \<Rightarrow> if k \<noteq> [] then AList.delete k m else m)"

text \<open>The lookup of \<^verbatim>\<open>existingId\<close> by IP, else by MAC (lines 51-57 of the class).\<close>

definition findExistingId :: "DeviceInfo \<Rightarrow> DeviceRegistry \<Rightarrow> string option" where
  "findExistingId info r =
     (if ip info \<noteq> [] \<and> map_of (ipToIdMap r) (ip info) \<noteq> None then map_of (ipToIdMap r) (ip info)
      else (case macString (mac info) of
              None \<Rightarrow> None
            | Some m \<Rightarrow> if m \<noteq> [] \<and> map_of (macToIdMap r) m \<noteq> None
                        then map_of (macToIdMap r) m else None))"

definition registerDevice ::
  "nat \<Rightarrow> (nat \<Rightarrow> 8 word) \<Rightarrow> DeviceInfo \<Rightarrow> bool \<Rightarrow> DeviceRegistry \<Rightarrow> RegisteredDevice \<times> DeviceRegistry" where
  "registerDevice now rnd info requirePairing r =
     (case map_of (devices r) (id' info) of
        Some device \<Rightarrow>
          (let device' = device\<lparr>deviceInfo := mergeDeviceInfo (deviceInfo device) info, lastSeen := now\<rparr>
           in (device', r\<lparr>devices := AList.update (id' info) device' (devices r)\<rparr>))
      | None \<Rightarrow>
          (case (case findExistingId info r of
                   None \<Rightarrow> None
                 | Some e \<Rightarrow> if e \<noteq> [] then map_option (Pair e) (map_of (devices r) e) else None) of
             Some (existingId, device) \<Rightarrow>
               (let devices1 = AList.delete existingId (devices r);
                    ip1 = indexDelete (Some (ip (deviceInfo device))) (ipToIdMap r);
                    mac1 = indexDelete (macString (mac (deviceInfo device))) (macToIdMap r);
                    updatedDevice = device\<lparr>deviceInfo := mergeDeviceInfo (deviceInfo device) info,
                                           lastSeen := now\<rparr>
                in (updatedDevice,
                    \<lparr>devices = AList.update (id' info) updatedDevice devices1,
                     ipToIdMap = indexSet (Some (ip info)) (id' info) ip1,
                     macToIdMap = indexSet (macString (mac info)) (id' info) mac1\<rparr>))
           | None \<Rightarrow>
               (let newDevice = \<lparr>deviceInfo = info, status = DISCONNECTED, lastSeen = now,
                                 firstSeen = now, connectionId = None, authToken = None,
                                 paired = False,
                                 pairingToken = (if requirePairing then Some (generateToken rnd) else None),
                                 pairingExpiration = (if requirePairing then Some (now + 5 * 60 * 1000) else None)\<rparr>
                in (newDevice,
                    \<lparr>devices = AList.update (id' info) newDevice (devices r),
                     ipToIdMap = indexSet (Some (ip info)) (id' info) (ipToIdMap r),
                     macToIdMap = indexSet (macString (mac info)) (id' info) (macToIdMap r)\<rparr>))))"

definition connectDevice ::
  "nat \<Rightarrow> string \<Rightarrow> string \<Rightarrow> DeviceRegistry \<Rightarrow> RegisteredDevice option \<times> DeviceRegistry" where
  "connectDevice now deviceId cid r =
     (case map_of (devices r) deviceId of
        None \<Rightarrow> (None, r)
      | Some device \<Rightarrow>
          (let device' = device\<lparr>status := (if paired device then PAIRED else CONNECTED),
                                connectionId := Some cid, lastSeen := now\<rparr>
           in (Some device', r\<lparr>devices := AList.update deviceId device' (devices r)\<rparr>)))"

definition disconnectDevice ::
  "nat \<Rightarrow> string \<Rightarrow> DeviceRegistry \<Rightarrow> RegisteredDevice option \<times> DeviceRegistry" where
  "disconnectDevice now deviceId r =
     (case map_of (devices r) deviceId of
        None \<Rightarrow> (None, r)
      | Some device \<Rightarrow>
          (let device' = device\<lparr>status := DISCONNECTED, connectionId := None, lastSeen := now\<rparr>
           in (Some device', r\<lparr>devices := AList.update deviceId device' (devices r)\<rparr>)))"

text \<open>The result object \<^verbatim>\<open>{ success, device?, error? }\<close> of \<^verbatim>\<open>pairDevice\<close> and \<^verbatim>\<open>unpairDevice\<close>
  (its \<^verbatim>\<open>device\<close> is \<open>resultDevice\<close> here).\<close>

record PairResult =
  success :: bool
  resultDevice :: "RegisteredDevice option"
  error :: "string option"

definition failure :: "string \<Rightarrow> PairResult" where
  "failure e = \<lparr>success = False, resultDevice = None, error = Some e\<rparr>"

text \<open>
  \<^verbatim>\<open>!device.pairingToken\<close> holds for an absent and for an empty token;
  \<^verbatim>\<open>device.pairingExpiration && ...\<close> skips the expiry test for an absent and for a zero expiration.
\<close>

definition pairDevice ::
  "nat \<Rightarrow> (nat \<Rightarrow> 8 word) \<Rightarrow> string \<Rightarrow> string \<Rightarrow> DeviceRegistry \<Rightarrow> PairResult \<times> DeviceRegistry" where
  "pairDevice now rnd deviceId token r =
     (case map_of (devices r) deviceId of
        None \<Rightarrow> (failure ''Device not found'', r)
      | Some device \<Rightarrow>
          if pairingToken device = None \<or> pairingToken device = Some [] then
            (failure ''Device does not support pairing'', r)
          else if pairingToken device \<noteq> Some token then
            (failure ''Invalid pairing token'', r)
          else if (case pairingExpiration device of None \<Rightarrow> False | Some e \<Rightarrow> e \<noteq> 0 \<and> e < now) then
            (failure ''Pairing token expired'', r)
          else
            (let device' = device\<lparr>authToken := Some (generateToken rnd), paired := True,
                                  pairingToken := None, pairingExpiration := None,
                                  status := (if status device = CONNECTED then PAIRED else status device)\<rparr>
             in (\<lparr>success = True, resultDevice = Some device', error = None\<rparr>,
                 r\<lparr>devices := AList.update deviceId device' (devices r)\<rparr>)))"

definition unpairDevice ::
  "nat \<Rightarrow> (nat \<Rightarrow> 8 word) \<Rightarrow> string \<Rightarrow> DeviceRegistry \<Rightarrow> PairResult \<times> DeviceRegistry" where
  "unpairDevice now rnd deviceId r =
     (case map_of (devices r) deviceId of
        None \<Rightarrow> (failure ''Device not found'', r)
      | Some device \<Rightarrow>
          (let device' = device\<lparr>paired := False, authToken := None,
                                pairingToken := Some (generateToken rnd),
                                pairingExpiration := Some (now + 5 * 60 * 1000),
                                status := (if status device = PAIRED then CONNECTED else status device)\<rparr>
           in (\<lparr>success = True, resultDevice = Some device', error = None\<rparr>,
               r\<lparr>devices := AList.update deviceId device' (devices r)\<rparr>)))"

definition getDeviceById :: "string \<Rightarrow> DeviceRegistry \<Rightarrow> RegisteredDevice option" where
  "getDeviceById deviceId r = map_of (devices r) deviceId"

definition getAllDevices :: "DeviceRegistry \<Rightarrow> RegisteredDevice list" where
  "getAllDevices r = map snd (devices r)"

definition getConnectedDevices :: "DeviceRegistry \<Rightarrow> RegisteredDevice list" where
  "getConnectedDevices r =
     filter (\<lambda>device. status device = CONNECTED \<or> status device = PAIRED) (getAllDevices r)"

definition getPairedDevices :: "DeviceRegistry \<Rightarrow> RegisteredDevice list" where
  "getPairedDevices r =
     filter (\<lambda>device. paired device \<and> status device = PAIRED) (getAllDevices r)"

definition removeDevice :: "string \<Rightarrow> DeviceRegistry \<Rightarrow> bool \<times> DeviceRegistry" where
  "removeDevice deviceId r =
     (case map_of (devices r) deviceId of
        None \<Rightarrow> (False, r)
      | Some device \<Rightarrow>
          (True, \<lparr>devices = AList.delete deviceId (devices r),
                  ipToIdMap = indexDelete (Some (ip (deviceInfo device))) (ipToIdMap r),
                  macToIdMap = indexDelete (macString (mac (deviceInfo device))) (macToIdMap r)\<rparr>))"

definition updateDeviceLastSeen :: "nat \<Rightarrow> string \<Rightarrow> DeviceRegistry \<Rightarrow> bool \<times> DeviceRegistry" where
  "updateDeviceLastSeen now deviceId r =
     (case map_of (devices r) deviceId of
        None \<Rightarrow> (False, r)
      | Some device \<Rightarrow>
          (True, r\<lparr>devices := AList.update deviceId (device\<lparr>lastSeen := now\<rparr>) (devices r)\<rparr>))"

text \<open>
  The loop of \<^verbatim>\<open>cleanupOldDevices\<close> over \<^verbatim>\<open>this.devices.entries()\<close>. Only the entry being
  visited is ever deleted, so the loop visits the entries the map had at the start.
  \<open>cutoffTime = now - maxAge\<close> may be negative, hence an \<open>int\<close>.
\<close>

fun cleanupLoop ::
  "(string \<times> RegisteredDevice) list \<Rightarrow> int \<Rightarrow> nat \<Rightarrow> DeviceRegistry \<Rightarrow> nat \<times> DeviceRegistry" where
  "cleanupLoop [] cutoffTime removedCount r = (removedCount, r)"
| "cleanupLoop ((deviceId, device) # es) cutoffTime removedCount r =
     (if int (lastSeen device) < cutoffTime then
        (case removeDevice deviceId r of
           (True, r') \<Rightarrow> cleanupLoop es cutoffTime (removedCount + 1) r'
         | (False, r') \<Rightarrow> cleanupLoop es cutoffTime removedCount r')
      else cleanupLoop es cutoffTime removedCount r)"

definition cleanupOldDevices :: "nat \<Rightarrow> nat \<Rightarrow> DeviceRegistry \<Rightarrow> nat \<times> DeviceRegistry" where
  "cleanupOldDevices now maxAge r = cleanupLoop (devices r) (int now - int maxAge) 0 r"

subsection \<open>Registry states and their invariant\<close>

text \<open>
  The registry states that the public operations can produce from the empty registry,
  for any clock readings, entropy and arguments.
\<close>

inductive reachable :: "DeviceRegistry \<Rightarrow> bool" where
  reachable_init: "reachable emptyRegistry"
| reachable_register: "reachable r \<Longrightarrow> reachable (snd (registerDevice now rnd info requirePairing r))"
| reachable_connect: "reachable r \<Longrightarrow> reachable (snd (connectDevice now deviceId cid r))"
| reachable_disconnect: "reachable r \<Longrightarrow> reachable (snd (disconnectDevice now deviceId r))"
| reachable_pair: "reachable r \<Longrightarrow> reachable (snd (pairDevice now rnd deviceId token r))"
| reachable_unpair: "reachable r \<Longrightarrow> reachable (snd (unpairDevice now rnd deviceId r))"
| reachable_remove: "reachable r \<Longrightarrow> reachable (snd (removeDevice deviceId r))"
| reachable_lastSeen: "reachable r \<Longrightarrow> reachable (snd (updateDeviceLastSeen now deviceId r))"
| reachable_cleanup: "reachable r \<Longrightarrow> reachable (snd (cleanupOldDevices now maxAge r))"

definition authNonEmpty :: "RegisteredDevice \<Rightarrow> bool" where
  "authNonEmpty d = (case authToken d of None \<Rightarrow> False | Some t \<Rightarrow> t \<noteq> [])"

definition deviceInv :: "RegisteredDevice \<Rightarrow> bool" where
  "deviceInv d =
     (authNonEmpty d = paired d \<and> pairingToken d \<noteq> Some [] \<and> pairingExpiration d \<noteq> Some 0)"

definition registryInv :: "DeviceRegistry \<Rightarrow> bool" where
  "registryInv r = list_all (\<lambda>(k, d). deviceInv d) (devices r)"

section \<open>Control server (controller/controlServer.ts)\<close>

text \<open>
  A connection is the socket object with the fields the server adds to it. \<open>readyOpen\<close>
  stands for the socket being open: \<^verbatim>\<open>send\<close> writes only to an open socket.
\<close>

record WebSocketWithId =
  ws_connectionId :: string
  ws_deviceId :: "string option"
  isAlive :: bool
  lastActivity :: nat
  readyOpen :: bool

datatype Direction = DirLeft | DirRight

text \<open>The \<^verbatim>\<open>data\<close> payloads of the messages the server writes.\<close>

datatype MessageData =
    RegisteredData string bool "string option"
  | PairingResponseData bool "string option" "string option"
  | ErrorData nat string
  | CommandData string Direction nat nat
  | HeartbeatAckData

record BaseMessage =
  msg_type :: string
  version :: string
  timestamp :: nat
  sender_id :: string
  sender_type :: DeviceType

record ProtocolMessage = BaseMessage +
  data :: MessageData

definition createBaseMessage :: "nat \<Rightarrow> string \<Rightarrow> string \<Rightarrow> DeviceType \<Rightarrow> BaseMessage" where
  "createBaseMessage now ty senderId senderType =
     \<lparr>msg_type = ty, version = PROTOCOL_VERSION, timestamp = now,
      sender_id = senderId, sender_type = senderType\<rparr>"

text \<open>\<^verbatim>\<open>{ ...base, data }\<close>.\<close>

definition withData :: "BaseMessage \<Rightarrow> MessageData \<Rightarrow> ProtocolMessage" where
  "withData b d = \<lparr>msg_type = msg_type b, version = version b, timestamp = timestamp b,
                    sender_id = sender_id b, sender_type = sender_type b, data = d\<rparr>"

definition createErrorMessage :: "nat \<Rightarrow> string \<Rightarrow> DeviceType \<Rightarrow> nat \<Rightarrow> string \<Rightarrow> ProtocolMessage" where
  "createErrorMessage now senderId senderType code message =
     withData (createBaseMessage now ''error'' senderId senderType) (ErrorData code message)"

text \<open>
  The server: its connection table (a \<^verbatim>\<open>Map\<close> in insertion order), the registry it owns,
  and \<open>outbox\<close>, the messages written to sockets so far, each with the connection it went to.
\<close>

record ControlServer =
  controllerId :: string
  connections :: "(string \<times> WebSocketWithId) list"
  deviceRegistry :: DeviceRegistry
  outbox :: "(string \<times> ProtocolMessage) list"

definition newServer :: "string \<Rightarrow> DeviceRegistry \<Rightarrow> ControlServer" where
  "newServer cid r = \<lparr>controllerId = cid, connections = [], deviceRegistry = r, outbox = []\<rparr>"

text \<open>
  \<^verbatim>\<open>sendMessage\<close>: the message is written when the socket is open (\<open>True\<close>); otherwise the
  promise is rejected (\<open>False\<close>) and nothing is written.
\<close>

definition sendMessage :: "WebSocketWithId \<Rightarrow> ProtocolMessage \<Rightarrow> ControlServer \<Rightarrow> bool \<times> ControlServer" where
  "sendMessage connection message s =
     (if readyOpen connection
      then (True, s\<lparr>outbox := outbox s @ [(ws_connectionId connection, message)]\<rparr>)
      else (False, s))"

definition getConnectionByDeviceId :: "string \<Rightarrow> ControlServer \<Rightarrow> WebSocketWithId option" where
  "getConnectionByDeviceId deviceId s =
     find (\<lambda>connection. ws_deviceId connection = Some deviceId) (map snd (connections s))"

text \<open>\<^verbatim>\<open>handleConnection\<close>: the fresh \<^verbatim>\<open>connectionId\<close> (clock and random digits) is the parameter \<open>cid\<close>.\<close>

definition handleConnection :: "nat \<Rightarrow> string \<Rightarrow> ControlServer \<Rightarrow> ControlServer" where
  "handleConnection now cid s =
     s\<lparr>connections := AList.update cid
          \<lparr>ws_connectionId = cid, ws_deviceId = None, isAlive = True, lastActivity = now,
           readyOpen = True\<rparr> (connections s)\<rparr>"

text \<open>
  The message handlers receive the connection object; here they receive its key and read
  the object from the table, where every connection that can still deliver a message is.
  The register payload \<^verbatim>\<open>data.deviceInfo\<close> is an option (\<open>None\<close>: absent); an empty
  \<^verbatim>\<open>id\<close> is falsy.
\<close>

definition handleRegisterMessage ::
  "nat \<Rightarrow> (nat \<Rightarrow> 8 word) \<Rightarrow> string \<Rightarrow> DeviceInfo option \<Rightarrow> ControlServer \<Rightarrow> ControlServer" where
  "handleRegisterMessage now rnd cid payload s =
     (case map_of (connections s) cid of
        None \<Rightarrow> s
      | Some connection \<Rightarrow>
          (case (case payload of None \<Rightarrow> None | Some i \<Rightarrow> if id' i = [] then None else Some i) of
             None \<Rightarrow>
               snd (sendMessage connection
                     (createErrorMessage now (controllerId s) CONTROLLER INVALID_MESSAGE
                        ''Invalid device info'') s)
           | Some info \<Rightarrow>
               if type' info \<noteq> TARGET then
                 snd (sendMessage connection
                       (createErrorMessage now (controllerId s) CONTROLLER INVALID_MESSAGE
                          ''Only target devices can register'') s)
               else
                 (let (device, r1) = registerDevice now rnd info True (deviceRegistry s);
                      deviceId = id' (deviceInfo device);
                      connection' = connection\<lparr>ws_deviceId := Some deviceId\<rparr>;
                      (_, r2) = connectDevice now deviceId (ws_connectionId connection') r1;
                      s1 = s\<lparr>connections := AList.update cid connection' (connections s),
                             deviceRegistry := r2\<rparr>;
                      registeredMessage =
                        withData (createBaseMessage now ''registered'' (controllerId s) CONTROLLER)
                          (RegisteredData deviceId (\<not> paired device) (pairingToken device))
                  in snd (sendMessage connection' registeredMessage s1))))"

text \<open>
  \<^verbatim>\<open>handlePairingRequestMessage\<close>: \<open>payload\<close> is \<^verbatim>\<open>data.pairingToken\<close> (\<open>None\<close>: absent).
\<close>

definition handlePairingRequestMessage ::
  "nat \<Rightarrow> (nat \<Rightarrow> 8 word) \<Rightarrow> string \<Rightarrow> string option \<Rightarrow> ControlServer \<Rightarrow> ControlServer" where
  "handlePairingRequestMessage now rnd cid payload s =
     (case map_of (connections s) cid of
        None \<Rightarrow> s
      | Some connection \<Rightarrow>
          (case (case ws_deviceId connection of None \<Rightarrow> None | Some d \<Rightarrow> if d = [] then None else Some d) of
             None \<Rightarrow>
               snd (sendMessage connection
                     (createErrorMessage now (controllerId s) CONTROLLER INVALID_MESSAGE
                        ''Device not registered'') s)
           | Some deviceId \<Rightarrow>
               (case (case payload of None \<Rightarrow> None | Some t \<Rightarrow> if t = [] then None else Some t) of
                  None \<Rightarrow>
                    snd (sendMessage connection
                          (createErrorMessage now (controllerId s) CONTROLLER INVALID_MESSAGE
                             ''Missing pairing token'') s)
                | Some token \<Rightarrow>
                    (let (result, r1) = pairDevice now rnd deviceId token (deviceRegistry s);
                         s1 = s\<lparr>deviceRegistry := r1\<rparr>
                     in if \<not> success result then
                          snd (sendMessage connection
                                (createErrorMessage now (controllerId s) CONTROLLER AUTHENTICATION_FAILED
                                   (case error result of
                                      None \<Rightarrow> ''Pairing failed''
                                    | Some e \<Rightarrow> if e = [] then ''Pairing failed'' else e)) s1)
                        else
                          snd (sendMessage connection
                                (withData
                                   (createBaseMessage now ''pairing_response'' (controllerId s) CONTROLLER)
                                   (PairingResponseData True
                                      (case resultDevice result of None \<Rightarrow> None | Some d \<Rightarrow> authToken d)
                                      None)) s1)))))"

text \<open>
  \<^verbatim>\<open>handleClose\<close>: the device bound to the connection is marked disconnected and the
  connection leaves the table.
\<close>

definition handleClose :: "nat \<Rightarrow> string \<Rightarrow> ControlServer \<Rightarrow> ControlServer" where
  "handleClose now cid s =
     (case map_of (connections s) cid of
        None \<Rightarrow> s
      | Some connection \<Rightarrow>
          (let r1 = (case ws_deviceId connection of
                       None \<Rightarrow> deviceRegistry s
                     | Some d \<Rightarrow> if d = [] then deviceRegistry s
                                 else snd (disconnectDevice now d (deviceRegistry s)))
           in s\<lparr>connections := AList.delete cid (connections s), deviceRegistry := r1\<rparr>))"

text \<open>
  \<^verbatim>\<open>sendArrowCommand\<close>: the promise is rejected with \<^verbatim>\<open>new Error(reason)\<close> (\<open>Rejected reason\<close>),
  rejected with the transport's error when the write fails (\<open>SendFailed\<close>), or resolved with
  \<^verbatim>\<open>true\<close>. \<^verbatim>\<open>options.repeat || 1\<close> and \<^verbatim>\<open>options.holdTime || 0\<close> replace an absent or zero option.
\<close>

datatype CommandFailure = Rejected string | SendFailed

definition sendArrowCommand ::
  "nat \<Rightarrow> string \<Rightarrow> Direction \<Rightarrow> nat option \<Rightarrow> nat option \<Rightarrow> ControlServer
     \<Rightarrow> (CommandFailure + bool) \<times> ControlServer" where
  "sendArrowCommand now deviceId direction repeat holdTime s =
     (case getDeviceById deviceId (deviceRegistry s) of
        None \<Rightarrow> (Inl (Rejected ''Device not found''), s)
      | Some device \<Rightarrow>
          if status device \<noteq> CONNECTED \<and> status device \<noteq> PAIRED then
            (Inl (Rejected ''Device not connected''), s)
          else if \<not> paired device then
            (Inl (Rejected ''Device not paired''), s)
          else
            (let commandType = (if direction = DirLeft then ARROW_LEFT else ARROW_RIGHT)
             in if commandType \<notin> set (supportedCommands (deviceInfo device)) then
                  (Inl (Rejected (''Device does not support command: '' @ commandType)), s)
                else
                  (case getConnectionByDeviceId deviceId s of
                     None \<Rightarrow> (Inl (Rejected ''No active connection for device''), s)
                   | Some connection \<Rightarrow>
                       (let commandMessage =
                              withData (createBaseMessage now ''command'' (controllerId s) CONTROLLER)
                                (CommandData commandType direction
                                   (case repeat of None \<Rightarrow> 1 | Some n \<Rightarrow> if n = 0 then 1 else n)
                                   (case holdTime of None \<Rightarrow> 0 | Some n \<Rightarrow> n));
                            (ok, s1) = sendMessage connection commandMessage s
                        in if ok then (Inr True, s1) else (Inl SendFailed, s1)))))"

text \<open>The open connections of the table that are bound to a device.\<close>

definition liveConnectionsOf :: "string \<Rightarrow> ControlServer \<Rightarrow> WebSocketWithId list" where
  "liveConnectionsOf deviceId s =
     filter (\<lambda>connection. ws_deviceId connection = Some deviceId \<and> readyOpen connection)
       (map snd (connections s))"

section \<open>Message validation (src/shared/utils.ts, validateMessage)\<close>

text \<open>
  The argument of \<^verbatim>\<open>validateMessage\<close> has type \<^verbatim>\<open>any\<close>: a JavaScript value as
  \<^verbatim>\<open>JSON.parse\<close> builds it, and \<^verbatim>\<open>undefined\<close> for what a property read finds missing.
  A number is the value it denotes (JSON has no NaN); an object is the list of its own
  properties.
\<close>

datatype jsval =
    JUndefined
  | JNull
  | JBool bool
  | JNumber real
  | JString string
  | JArray "jsval list"
  | JObject "(string \<times> jsval) list"

text \<open>\<^verbatim>\<open>!v\<close> is \<open>\<not> truthy v\<close>.\<close>

fun truthy :: "jsval \<Rightarrow> bool" where
  "truthy JUndefined = False"
| "truthy JNull = False"
| "truthy (JBool b) = b"
| "truthy (JNumber n) = (n \<noteq> 0)"
| "truthy (JString s) = (s \<noteq> [])"
| "truthy (JArray _) = True"
| "truthy (JObject _) = True"

text \<open>\<^verbatim>\<open>typeof v === "object"\<close>.\<close>

fun typeofObject :: "jsval \<Rightarrow> bool" where
  "typeofObject JNull = True"
| "typeofObject (JArray _) = True"
| "typeofObject (JObject _) = True"
| "typeofObject _ = False"

text \<open>
  \<^verbatim>\<open>v.k\<close> for the property names the validator reads (\<^verbatim>\<open>type\<close>, \<^verbatim>\<open>version\<close>,
  \<^verbatim>\<open>timestamp\<close>, \<^verbatim>\<open>sender\<close>, \<^verbatim>\<open>id\<close>): an object yields its own property, and arrays,
  strings, numbers and booleans have none of these, so the read yields \<^verbatim>\<open>undefined\<close>.
  The validator reads a property only of a truthy value.
\<close>

fun getprop :: "jsval \<Rightarrow> string \<Rightarrow> jsval" where
  "getprop (JObject ps) k = (case map_of ps k of None \<Rightarrow> JUndefined | Some v \<Rightarrow> v)"
| "getprop _ k = JUndefined"

record ValidationResult =
  valid :: bool
  error' :: "string option"

definition invalid :: "string \<Rightarrow> ValidationResult" where
  "invalid e = \<lparr>valid = False, error' = Some e\<rparr>"

definition validateMessage :: "jsval \<Rightarrow> ValidationResult" where
  "validateMessage message =
     (if \<not> truthy message \<or> \<not> typeofObject message then
        invalid ''Message must be an object''
      else if \<not> truthy (getprop message ''type'') \<or> \<not> truthy (getprop message ''version'')
              \<or> \<not> truthy (getprop message ''timestamp'') \<or> \<not> truthy (getprop message ''sender'') then
        invalid ''Message missing required fields''
      else if \<not> truthy (getprop (getprop message ''sender'') ''id'')
              \<or> \<not> truthy (getprop (getprop message ''sender'') ''type'') then
        invalid ''Sender missing required fields''
      else if getprop (getprop message ''sender'') ''type'' \<notin> set [JString ''controller'', JString ''target''] then
        invalid ''Invalid sender type''
      else \<lparr>valid = True, error' = None\<rparr>)"

text \<open>
  The rule as the specification words it, to be compared with \<open>validateMessage\<close>: a field
  is present when the object has a property of that name, whatever it holds, and it is
  valid when it has the type that \<^verbatim>\<open>BaseMessage\<close> declares (\<^verbatim>\<open>type\<close>, \<^verbatim>\<open>version\<close> and
  \<^verbatim>\<open>sender.id\<close> strings, \<^verbatim>\<open>timestamp\<close> a number) and, for \<^verbatim>\<open>sender.type\<close>, when it is
  \<open>controller\<close> or \<open>target\<close>.
\<close>

definition hasField :: "jsval \<Rightarrow> string \<Rightarrow> bool" where
  "hasField v k = (getprop v k \<noteq> JUndefined)"

fun isString :: "jsval \<Rightarrow> bool" where
  "isString (JString _) = True"
| "isString _ = False"

fun isNumber :: "jsval \<Rightarrow> bool" where
  "isNumber (JNumber _) = True"
| "isNumber _ = False"

definition presentAndValid :: "jsval \<Rightarrow> bool" where
  "presentAndValid m =
     (hasField m ''type'' \<and> isString (getprop m ''type'')
      \<and> hasField m ''version'' \<and> isString (getprop m ''version'')
      \<and> hasField m ''timestamp'' \<and> isNumber (getprop m ''timestamp'')
      \<and> hasField m ''sender''
      \<and> hasField (getprop m ''sender'') ''id'' \<and> isString (getprop (getprop m ''sender'') ''id'')
      \<and> hasField (getprop m ''sender'') ''type''
      \<and> getprop (getprop m ''sender'') ''type'' \<in> {JString ''controller'', JString ''target''})"

section \<open>Control client: reconnection (class SimplifiedControlClient)\<close>

text \<open>
  The fields of the client that its connection handling reads and writes, and the part of
  the runtime it acts on: \<open>pendingTimeouts\<close> are the timers set by \<^verbatim>\<open>setTimeout\<close> that
  have neither fired nor been cleared, each with its handle and delay in milliseconds;
  \<open>nextHandle\<close> supplies fresh handles for timers and sockets; \<open>warnings\<close> are the lines
  written by \<^verbatim>\<open>logger.warn\<close>. \<open>ws\<close> is \<open>None\<close> for \<^verbatim>\<open>null\<close>.
\<close>

record SimplifiedControlClient =
  client_status :: ConnectionStatus
  ws :: "nat option"
  heartbeatIntervalId :: "nat option"
  reconnectTimeoutId :: "nat option"
  reconnectAttempts :: nat
  maxReconnectAttempts :: nat
  autoConnect :: bool
  controllerInfo :: "(string \<times> nat) option"
  pendingTimeouts :: "(nat \<times> nat) list"
  nextHandle :: nat
  warnings :: "string list"

text \<open>The field initialisers of the class, before the constructor's own \<^verbatim>\<open>connect\<close>.\<close>

definition newClient :: "bool \<Rightarrow> string \<Rightarrow> nat \<Rightarrow> SimplifiedControlClient" where
  "newClient auto cip port =
     \<lparr>client_status = DISCONNECTED, ws = None, heartbeatIntervalId = None,
      reconnectTimeoutId = None, reconnectAttempts = 0, maxReconnectAttempts = 10,
      autoConnect = auto, controllerInfo = Some (cip, port),
      pendingTimeouts = [], nextHandle = 0, warnings = []\<rparr>"

definition setTimeout :: "nat \<Rightarrow> SimplifiedControlClient \<Rightarrow> nat \<times> SimplifiedControlClient" where
  "setTimeout delay c =
     (nextHandle c,
      c\<lparr>pendingTimeouts := pendingTimeouts c @ [(nextHandle c, delay)],
        nextHandle := nextHandle c + 1\<rparr>)"

definition clearTimeout :: "nat \<Rightarrow> SimplifiedControlClient \<Rightarrow> SimplifiedControlClient" where
  "clearTimeout h c = c\<lparr>pendingTimeouts := filter (\<lambda>(h', d). h' \<noteq> h) (pendingTimeouts c)\<rparr>"

text \<open>
  \<^verbatim>\<open>Math.min(1000 * Math.pow(2, attempts), 30000)\<close>: the product is exact in double
  precision as long as it is finite and is \<^verbatim>\<open>Infinity\<close> beyond, so the minimum is that
  of the natural numbers.
\<close>

definition scheduleReconnect :: "SimplifiedControlClient \<Rightarrow> SimplifiedControlClient" where
  "scheduleReconnect c =
     (let c1 = (case reconnectTimeoutId c of None \<Rightarrow> c | Some h \<Rightarrow> clearTimeout h c);
          backoffTime = min (1000 * 2 ^ reconnectAttempts c1) 30000;
          (h, c2) = setTimeout backoffTime c1
      in c2\<lparr>reconnectTimeoutId := Some h\<rparr>)"

definition stopHeartbeat :: "SimplifiedControlClient \<Rightarrow> SimplifiedControlClient" where
  "stopHeartbeat c = c\<lparr>heartbeatIntervalId := None\<rparr>"

definition handleDisconnection :: "SimplifiedControlClient \<Rightarrow> SimplifiedControlClient" where
  "handleDisconnection c =
     (let c1 = (stopHeartbeat c)\<lparr>ws := None, client_status := DISCONNECTED\<rparr>
      in if autoConnect c1 \<and> controllerInfo c1 \<noteq> None then scheduleReconnect c1 else c1)"

text \<open>
  \<^verbatim>\<open>connect\<close> up to the creation of the socket; what follows is driven by the socket's
  events.
\<close>

definition connect :: "string \<Rightarrow> nat \<Rightarrow> SimplifiedControlClient \<Rightarrow> SimplifiedControlClient" where
  "connect cip port c =
     (if ws c \<noteq> None then c\<lparr>warnings := warnings c @ [''Already connected to a controller'']\<rparr>
      else c\<lparr>client_status := CONNECTING, controllerInfo := Some (cip, port),
             ws := Some (nextHandle c), nextHandle := nextHandle c + 1\<rparr>)"

text \<open>
  The callback given to \<^verbatim>\<open>setTimeout\<close> in \<^verbatim>\<open>scheduleReconnect\<close>, run when the pending
  timer \<open>h\<close> fires; a timer that is not pending does not fire.
\<close>

definition reconnectTimerFired :: "nat \<Rightarrow> SimplifiedControlClient \<Rightarrow> SimplifiedControlClient" where
  "reconnectTimerFired h c =
     (if h \<notin> fst ` set (pendingTimeouts c) then c
      else
        (let c1 = c\<lparr>pendingTimeouts := filter (\<lambda>(h', d). h' \<noteq> h) (pendingTimeouts c),
                    reconnectAttempts := reconnectAttempts c + 1\<rparr>
         in if reconnectAttempts c1 > maxReconnectAttempts c1 then
              c1\<lparr>warnings := warnings c1 @ [''Max reconnect attempts reached, giving up'']\<rparr>
            else (case controllerInfo c1 of
                    None \<Rightarrow> c1
                  | Some (cip, port) \<Rightarrow> connect cip port c1)))"

text \<open>
  The socket opened by the reconnect timer reports an error: the \<^verbatim>\<open>error\<close> handler runs
  \<^verbatim>\<open>handleDisconnection\<close> and rejects the promise, whose \<^verbatim>\<open>catch\<close> in the timer callback
  runs \<^verbatim>\<open>scheduleReconnect\<close>.
\<close>

definition reconnectAttemptFailed :: "SimplifiedControlClient \<Rightarrow> SimplifiedControlClient" where
  "reconnectAttemptFailed c = scheduleReconnect (handleDisconnection c)"

text \<open>The client tracks every pending reconnect timer: at most one is pending, and it is the one in \<open>reconnectTimeoutId\<close>.\<close>

definition clientInv :: "SimplifiedControlClient \<Rightarrow> bool" where
  "clientInv c =
     (pendingTimeouts c = []
      \<or> (\<exists>h d. pendingTimeouts c = [(h, d)] \<and> reconnectTimeoutId c = Some h))"

section \<open>Registry: helper lemmas\<close>

lemma length_toHex: "length (toHex bs) = 2 * length bs"
  by (induction bs) (simp_all add: toHex_def)

lemma length_generateToken: "length (generateToken rnd) = 64"
  by (simp add: generateToken_def length_toHex randomBytes_def DEFAULT_AUTH_TOKEN_LENGTH_def)

lemma generateToken_nonempty: "generateToken rnd \<noteq> []"
  using length_generateToken [of rnd] by auto

lemma hexDigit_inj: "hexDigit a = hexDigit b \<Longrightarrow> a mod 16 = b mod 16"
proof -
  assume eq: "hexDigit a = hexDigit b"
  have d: "distinct ''0123456789abcdef''" by simp
  have la: "a mod 16 < length ''0123456789abcdef''" and lb: "b mod 16 < length ''0123456789abcdef''"
    by simp_all
  have "(''0123456789abcdef'' ! (a mod 16) = ''0123456789abcdef'' ! (b mod 16)) = (a mod 16 = b mod 16)"
    by (rule nth_eq_iff_index_eq [OF d la lb])
  then show ?thesis using eq unfolding hexDigit_def by blast
qed

lemma byte_of_hex:
  fixes b b' :: "8 word"
  assumes "hexDigit (unat b div 16) = hexDigit (unat b' div 16)"
    and "hexDigit (unat b mod 16) = hexDigit (unat b' mod 16)"
  shows "b = b'"
proof -
  have lt: "unat b < 256" "unat b' < 256"
    using unsigned_less [of b] unsigned_less [of b'] by simp_all
  have d: "unat b div 16 < 16" "unat b' div 16 < 16" using lt by simp_all
  have hi: "unat b div 16 = unat b' div 16"
    using hexDigit_inj [OF assms(1)] d by simp
  have lo: "unat b mod 16 = unat b' mod 16"
    using hexDigit_inj [OF assms(2)] by simp
  have "unat b = unat b' div 16 * 16 + unat b' mod 16"
    using hi lo by (metis div_mult_mod_eq)
  then have "unat b = unat b'" by simp
  then show ?thesis by (simp only: word_unat_eq_iff)
qed

lemma toHex_inj: "length bs = length bs' \<Longrightarrow> toHex bs = toHex bs' \<Longrightarrow> bs = bs'"
proof (induction bs bs' rule: list_induct2)
  case Nil
  then show ?case by simp
next
  case (Cons b bs b' bs')
  from Cons.prems have h: "hexDigit (unat b div 16) = hexDigit (unat b' div 16)"
    "hexDigit (unat b mod 16) = hexDigit (unat b' mod 16)" "toHex bs = toHex bs'"
    by (simp_all add: toHex_def)
  show ?case using byte_of_hex [OF h(1,2)] Cons.IH [OF h(3)] by simp
qed

lemma generateToken_inj:
  assumes "generateToken rnd' = generateToken rnd" and "i < DEFAULT_AUTH_TOKEN_LENGTH"
  shows "rnd' i = rnd i"
proof -
  have "randomBytes rnd' DEFAULT_AUTH_TOKEN_LENGTH = randomBytes rnd DEFAULT_AUTH_TOKEN_LENGTH"
    using assms(1) unfolding generateToken_def
    by (intro toHex_inj) (simp_all add: randomBytes_def)
  then have "map rnd' [0..<DEFAULT_AUTH_TOKEN_LENGTH] = map rnd [0..<DEFAULT_AUTH_TOKEN_LENGTH]"
    by (simp only: randomBytes_def)
  then have "\<forall>x \<in> set [0..<DEFAULT_AUTH_TOKEN_LENGTH]. rnd' x = rnd x"
    by (simp only: map_eq_conv)
  then show ?thesis using assms(2) by simp
qed

lemma list_all_update:
  "list_all P al \<Longrightarrow> P (k, v) \<Longrightarrow> list_all P (AList.update k v al)"
  by (induction al) auto

lemma list_all_delete:
  "list_all P al \<Longrightarrow> list_all P (AList.delete k al)"
  by (induction al) auto

lemma list_all_map_of:
  "list_all (\<lambda>(k, d). Q d) al \<Longrightarrow> map_of al k = Some v \<Longrightarrow> Q v"
  by (induction al) (auto split: if_splits)

lemma registryInv_lookup: "registryInv r \<Longrightarrow> map_of (devices r) k = Some d \<Longrightarrow> deviceInv d"
  unfolding registryInv_def by (rule list_all_map_of)

lemma registryInv_update:
  "registryInv r \<Longrightarrow> deviceInv d \<Longrightarrow> registryInv (r\<lparr>devices := AList.update k d (devices r)\<rparr>)"
  unfolding registryInv_def by (simp add: list_all_update)

lemma deviceInv_touch:
  "deviceInv d \<Longrightarrow> deviceInv (d\<lparr>deviceInfo := i, lastSeen := n\<rparr>)"
  "deviceInv d \<Longrightarrow> deviceInv (d\<lparr>lastSeen := n\<rparr>)"
  "deviceInv d \<Longrightarrow> deviceInv (d\<lparr>status := s, connectionId := c, lastSeen := n\<rparr>)"
  by (simp_all add: deviceInv_def authNonEmpty_def)

lemma deviceInv_new:
  "deviceInv \<lparr>deviceInfo = info, status = DISCONNECTED, lastSeen = now, firstSeen = now,
     connectionId = None, authToken = None, paired = False,
     pairingToken = (if rp then Some (generateToken rnd) else None),
     pairingExpiration = (if rp then Some (now + 5 * 60 * 1000) else None)\<rparr>"
  by (simp add: deviceInv_def authNonEmpty_def generateToken_nonempty)

lemma registerDevice_inv:
  assumes "registryInv r"
  shows "registryInv (snd (registerDevice now rnd info rp r))"
proof (cases "map_of (devices r) (id' info)")
  case (Some d)
  then have "deviceInv d" using assms by (rule registryInv_lookup [rotated])
  then show ?thesis using Some assms
    by (simp add: registerDevice_def Let_def registryInv_update deviceInv_touch)
next
  case None
  show ?thesis
  proof (cases "case findExistingId info r of None \<Rightarrow> None
                | Some e \<Rightarrow> if e \<noteq> [] then map_option (Pair e) (map_of (devices r) e) else None")
    case N2: None
    have "list_all (\<lambda>(k, d). deviceInv d) (devices r)" using assms by (simp add: registryInv_def)
    then show ?thesis using None N2 deviceInv_new [of info now rp rnd]
      by (simp add: registerDevice_def Let_def registryInv_def list_all_update)
  next
    case (Some p)
    obtain e d where p: "p = (e, d)" by (cases p)
    have look: "map_of (devices r) e = Some d"
      using Some p by (auto split: option.splits if_splits)
    then have "deviceInv d" using assms by (rule registryInv_lookup [rotated])
    moreover have "list_all (\<lambda>(k, d). deviceInv d) (devices r)" using assms by (simp add: registryInv_def)
    ultimately show ?thesis using None Some p
      by (simp add: registerDevice_def Let_def registryInv_def list_all_update list_all_delete
          deviceInv_touch)
  qed
qed

lemma connectDevice_inv:
  assumes "registryInv r"
  shows "registryInv (snd (connectDevice now k cid r))"
proof (cases "map_of (devices r) k")
  case None
  then show ?thesis using assms by (simp add: connectDevice_def)
next
  case (Some d)
  then have "deviceInv d" using assms by (rule registryInv_lookup [rotated])
  then show ?thesis using Some assms
    by (simp add: connectDevice_def Let_def registryInv_update deviceInv_touch)
qed

lemma disconnectDevice_inv:
  assumes "registryInv r"
  shows "registryInv (snd (disconnectDevice now k r))"
proof (cases "map_of (devices r) k")
  case None
  then show ?thesis using assms by (simp add: disconnectDevice_def)
next
  case (Some d)
  then have "deviceInv d" using assms by (rule registryInv_lookup [rotated])
  then show ?thesis using Some assms
    by (simp add: disconnectDevice_def Let_def registryInv_update deviceInv_touch)
qed

lemma pairDevice_inv:
  assumes "registryInv r"
  shows "registryInv (snd (pairDevice now rnd k tok r))"
proof (cases "map_of (devices r) k")
  case None
  then show ?thesis using assms by (simp add: pairDevice_def)
next
  case (Some d)
  then show ?thesis using assms
    by (auto simp: pairDevice_def Let_def deviceInv_def authNonEmpty_def generateToken_nonempty
        intro!: registryInv_update)
qed

lemma unpairDevice_inv:
  assumes "registryInv r"
  shows "registryInv (snd (unpairDevice now rnd k r))"
proof (cases "map_of (devices r) k")
  case None
  then show ?thesis using assms by (simp add: unpairDevice_def)
next
  case (Some d)
  then show ?thesis using assms
    by (auto simp: unpairDevice_def Let_def deviceInv_def authNonEmpty_def generateToken_nonempty
        intro!: registryInv_update)
qed

lemma removeDevice_inv: "registryInv r \<Longrightarrow> registryInv (snd (removeDevice k r))"
  by (cases "map_of (devices r) k") (simp_all add: removeDevice_def registryInv_def list_all_delete)

lemma updateDeviceLastSeen_inv:
  assumes "registryInv r"
  shows "registryInv (snd (updateDeviceLastSeen now k r))"
proof (cases "map_of (devices r) k")
  case None
  then show ?thesis using assms by (simp add: updateDeviceLastSeen_def)
next
  case (Some d)
  then have "deviceInv d" using assms by (rule registryInv_lookup [rotated])
  then show ?thesis using Some assms
    by (simp add: updateDeviceLastSeen_def registryInv_update deviceInv_touch)
qed

lemma cleanupLoop_inv: "registryInv r \<Longrightarrow> registryInv (snd (cleanupLoop es c n r))"
proof (induction es c n r rule: cleanupLoop.induct)
  case (1 cutoffTime removedCount r)
  then show ?case by simp
next
  case (2 deviceId device es cutoffTime removedCount r)
  show ?case
  proof (cases "int (lastSeen device) < cutoffTime")
    case True
    obtain b r' where rm: "removeDevice deviceId r = (b, r')" by (cases "removeDevice deviceId r")
    have "registryInv r'" using removeDevice_inv [OF "2.prems", of deviceId] rm by simp
    then show ?thesis using True rm 2 by (cases b) auto
  next
    case False
    then show ?thesis using 2 by simp
  qed
qed

lemma cleanupOldDevices_inv: "registryInv r \<Longrightarrow> registryInv (snd (cleanupOldDevices now maxAge r))"
  unfolding cleanupOldDevices_def by (rule cleanupLoop_inv)

lemma reachable_registryInv: "reachable r \<Longrightarrow> registryInv r"
proof (induction rule: reachable.induct)
  case reachable_init
  show ?case by (simp add: registryInv_def emptyRegistry_def)
qed (simp_all add: registerDevice_inv connectDevice_inv disconnectDevice_inv pairDevice_inv
      unpairDevice_inv removeDevice_inv updateDeviceLastSeen_inv cleanupOldDevices_inv)

lemma map_of_update_same: "map_of (AList.update k v al) k = Some v"
  by (simp add: update_conv')

lemma pairDevice_success_eq:
  assumes "success (fst (pairDevice now rnd deviceId token r))"
  obtains d where "map_of (devices r) deviceId = Some d"
    and "pairDevice now rnd deviceId token r
           = (\<lparr>success = True,
               resultDevice = Some (d\<lparr>authToken := Some (generateToken rnd), paired := True,
                  pairingToken := None, pairingExpiration := None,
                  status := (if status d = CONNECTED then PAIRED else status d)\<rparr>),
               error = None\<rparr>,
              r\<lparr>devices := AList.update deviceId
                 (d\<lparr>authToken := Some (generateToken rnd), paired := True,
                    pairingToken := None, pairingExpiration := None,
                    status := (if status d = CONNECTED then PAIRED else status d)\<rparr>) (devices r)\<rparr>)"
proof (cases "map_of (devices r) deviceId")
  case None
  then show ?thesis using assms by (simp add: pairDevice_def failure_def)
next
  case (Some d)
  have "\<not> (pairingToken d = None \<or> pairingToken d = Some [])"
    "\<not> pairingToken d \<noteq> Some token"
    "\<not> (case pairingExpiration d of None \<Rightarrow> False | Some e \<Rightarrow> e \<noteq> 0 \<and> e < now)"
    using assms Some by (auto simp: pairDevice_def failure_def split: if_splits)
  then have "pairDevice now rnd deviceId token r
           = (\<lparr>success = True,
               resultDevice = Some (d\<lparr>authToken := Some (generateToken rnd), paired := True,
                  pairingToken := None, pairingExpiration := None,
                  status := (if status d = CONNECTED then PAIRED else status d)\<rparr>),
               error = None\<rparr>,
              r\<lparr>devices := AList.update deviceId
                 (d\<lparr>authToken := Some (generateToken rnd), paired := True,
                    pairingToken := None, pairingExpiration := None,
                    status := (if status d = CONNECTED then PAIRED else status d)\<rparr>) (devices r)\<rparr>)"
    using Some unfolding pairDevice_def Let_def by simp
  then show ?thesis using Some that by blast
qed

section \<open>Registry: pairing\<close>

text \<open>
  C4. In every reachable registry state, \<open>pairDevice\<close> fails with "Device not found" for an
  unknown device, with "Device does not support pairing" when the device has no outstanding
  pairing token, with "Invalid pairing token" when the token differs from the outstanding
  one, and with "Pairing token expired" when the token matches and the clock is past
  \<open>pairingExpiration\<close>; every failure leaves the registry as it was; and once a pair has
  succeeded, the same token is answered with "Device does not support pairing".
\<close>

theorem pairDevice_failure_reasons:
  assumes "reachable r"
  shows "(getDeviceById deviceId r = None \<longrightarrow>
            pairDevice now rnd deviceId token r = (failure ''Device not found'', r))
       \<and> (\<forall>d. getDeviceById deviceId r = Some d \<longrightarrow>
            (pairingToken d = None \<longrightarrow>
               pairDevice now rnd deviceId token r = (failure ''Device does not support pairing'', r))
          \<and> (\<forall>t. pairingToken d = Some t \<and> t \<noteq> token \<longrightarrow>
               pairDevice now rnd deviceId token r = (failure ''Invalid pairing token'', r))
          \<and> (\<forall>e. pairingToken d = Some token \<and> pairingExpiration d = Some e \<and> e < now \<longrightarrow>
               pairDevice now rnd deviceId token r = (failure ''Pairing token expired'', r)))
       \<and> (\<not> success (fst (pairDevice now rnd deviceId token r)) \<longrightarrow>
            snd (pairDevice now rnd deviceId token r) = r)
       \<and> (success (fst (pairDevice now rnd deviceId token r)) \<longrightarrow>
            pairDevice now' rnd' deviceId token (snd (pairDevice now rnd deviceId token r))
              = (failure ''Device does not support pairing'', snd (pairDevice now rnd deviceId token r)))"
proof (cases "map_of (devices r) deviceId")
  case None
  then show ?thesis by (simp add: pairDevice_def getDeviceById_def failure_def)
next
  case (Some d)
  have "deviceInv d" using reachable_registryInv [OF assms] Some by (rule registryInv_lookup)
  then have wf: "pairingToken d \<noteq> Some []" "pairingExpiration d \<noteq> Some 0"
    by (simp_all add: deviceInv_def)
  have unknown: "getDeviceById deviceId r \<noteq> None" using Some by (simp add: getDeviceById_def)
  have noToken: "pairingToken d = None \<longrightarrow>
      pairDevice now rnd deviceId token r = (failure ''Device does not support pairing'', r)"
    using Some by (simp add: pairDevice_def)
  have mismatch: "\<forall>t. pairingToken d = Some t \<and> t \<noteq> token \<longrightarrow>
      pairDevice now rnd deviceId token r = (failure ''Invalid pairing token'', r)"
    using Some wf by (auto simp: pairDevice_def)
  have expired: "\<forall>e. pairingToken d = Some token \<and> pairingExpiration d = Some e \<and> e < now \<longrightarrow>
      pairDevice now rnd deviceId token r = (failure ''Pairing token expired'', r)"
    using Some wf by (auto simp: pairDevice_def)
  have unchanged: "\<not> success (fst (pairDevice now rnd deviceId token r)) \<longrightarrow>
      snd (pairDevice now rnd deviceId token r) = r"
    using Some by (simp add: pairDevice_def Let_def)
  have replay: "success (fst (pairDevice now rnd deviceId token r)) \<longrightarrow>
      pairDevice now' rnd' deviceId token (snd (pairDevice now rnd deviceId token r))
        = (failure ''Device does not support pairing'', snd (pairDevice now rnd deviceId token r))"
    using Some
    by (simp add: pairDevice_def Let_def failure_def map_of_update_same split: if_splits)
  show ?thesis using Some unknown noToken mismatch expired unchanged replay
    by (simp add: getDeviceById_def)
qed

theorem pairDevice_failure_reasons_witness:
  "reachable (snd (registerDevice 1000 (\<lambda>_. 0)
       \<lparr>id' = ''t1'', name = ''target'', ip = ''10.0.0.5'', mac = None, type' = TARGET,
        supportedCommands = [ARROW_LEFT, ARROW_RIGHT]\<rparr> True emptyRegistry))
   \<and> fst (pairDevice 2000 (\<lambda>_. 1) ''zz'' ''abc''
       (snd (registerDevice 1000 (\<lambda>_. 0)
         \<lparr>id' = ''t1'', name = ''target'', ip = ''10.0.0.5'', mac = None, type' = TARGET,
          supportedCommands = [ARROW_LEFT, ARROW_RIGHT]\<rparr> True emptyRegistry)))
       = failure ''Device not found''
   \<and> fst (pairDevice 2000 (\<lambda>_. 1) ''t1'' ''abc''
       (snd (registerDevice 1000 (\<lambda>_. 0)
         \<lparr>id' = ''t1'', name = ''target'', ip = ''10.0.0.5'', mac = None, type' = TARGET,
          supportedCommands = [ARROW_LEFT, ARROW_RIGHT]\<rparr> True emptyRegistry)))
       = failure ''Invalid pairing token''
   \<and> fst (pairDevice 400000 (\<lambda>_. 1) ''t1'' (generateToken (\<lambda>_. 0))
       (snd (registerDevice 1000 (\<lambda>_. 0)
         \<lparr>id' = ''t1'', name = ''target'', ip = ''10.0.0.5'', mac = None, type' = TARGET,
          supportedCommands = [ARROW_LEFT, ARROW_RIGHT]\<rparr> True emptyRegistry)))
       = failure ''Pairing token expired''
   \<and> fst (pairDevice 3000 (\<lambda>_. 2) ''t1'' (generateToken (\<lambda>_. 0))
       (snd (pairDevice 2000 (\<lambda>_. 1) ''t1'' (generateToken (\<lambda>_. 0))
         (snd (registerDevice 1000 (\<lambda>_. 0)
           \<lparr>id' = ''t1'', name = ''target'', ip = ''10.0.0.5'', mac = None, type' = TARGET,
            supportedCommands = [ARROW_LEFT, ARROW_RIGHT]\<rparr> True emptyRegistry)))))
       = failure ''Device does not support pairing''"
proof -
  let ?info = "\<lparr>id' = ''t1'', name = ''target'', ip = ''10.0.0.5'', mac = None, type' = TARGET,
                supportedCommands = [ARROW_LEFT, ARROW_RIGHT]\<rparr>"
  let ?r = "snd (registerDevice 1000 (\<lambda>_. 0) ?info True emptyRegistry)"
  let ?tok = "generateToken (\<lambda>_. 0)"
  let ?d = "\<lparr>deviceInfo = ?info, status = DISCONNECTED, lastSeen = 1000, firstSeen = 1000,
             connectionId = None, authToken = None, paired = False,
             pairingToken = Some ?tok, pairingExpiration = Some 301000\<rparr>"
  have reach: "reachable ?r" by (rule reachable_register) (rule reachable_init)
  have devs: "devices ?r = [(''t1'', ?d)]"
    by (simp add: registerDevice_def emptyRegistry_def findExistingId_def macString_def Let_def)
  have known: "getDeviceById ''t1'' ?r = Some ?d" and unknown: "getDeviceById ''zz'' ?r = None"
    by (simp_all add: getDeviceById_def devs)
  have neq: "?tok \<noteq> ''abc''" using length_generateToken [of "\<lambda>_. 0"] by auto
  have ok: "success (fst (pairDevice 2000 (\<lambda>_. 1) ''t1'' ?tok ?r))"
    using generateToken_nonempty [of "\<lambda>_. 0"] by (simp add: pairDevice_def devs Let_def)
  note a = pairDevice_failure_reasons [OF reach, of "''zz''" 2000 "\<lambda>_. 1" "''abc''"]
  note b = pairDevice_failure_reasons [OF reach, of "''t1''" 2000 "\<lambda>_. 1" "''abc''"]
  note c = pairDevice_failure_reasons [OF reach, of "''t1''" 400000 "\<lambda>_. 1" ?tok]
  note d = pairDevice_failure_reasons [OF reach, of "''t1''" 2000 "\<lambda>_. 1" ?tok 3000 "\<lambda>_. 2"]
  have 1: "fst (pairDevice 2000 (\<lambda>_. 1) ''zz'' ''abc'' ?r) = failure ''Device not found''"
    using a unknown by simp
  have 2: "fst (pairDevice 2000 (\<lambda>_. 1) ''t1'' ''abc'' ?r) = failure ''Invalid pairing token''"
    using b known neq by simp
  have 3: "fst (pairDevice 400000 (\<lambda>_. 1) ''t1'' ?tok ?r) = failure ''Pairing token expired''"
    using c known by simp
  have 4: "fst (pairDevice 3000 (\<lambda>_. 2) ''t1'' ?tok (snd (pairDevice 2000 (\<lambda>_. 1) ''t1'' ?tok ?r)))
             = failure ''Device does not support pairing''"
    using d ok by simp
  show ?thesis using reach 1 2 3 4 by blast
qed

text \<open>
  C5. When \<open>pairDevice\<close> succeeds, the stored record (which is also the one returned) holds
  a non-empty \<open>authToken\<close> generated from the entropy drawn by this call, has \<open>paired\<close>
  set, has no pairing token and no pairing expiration, and its status is \<open>PAIRED\<close> if it
  was \<open>CONNECTED\<close> and is otherwise what it was; the other fields keep their values. The
  token is fresh in that it encodes the 32 random bytes of the call: it has 64 characters,
  and a token equal to it can only come from the same 32 bytes.
\<close>

theorem pairDevice_success_record:
  assumes "success (fst (pairDevice now rnd deviceId token r))"
  shows "\<exists>d d'. getDeviceById deviceId r = Some d
           \<and> getDeviceById deviceId (snd (pairDevice now rnd deviceId token r)) = Some d'
           \<and> resultDevice (fst (pairDevice now rnd deviceId token r)) = Some d'
           \<and> authToken d' = Some (generateToken rnd) \<and> generateToken rnd \<noteq> []
           \<and> length (generateToken rnd) = 2 * DEFAULT_AUTH_TOKEN_LENGTH
           \<and> (\<forall>rnd'. authToken d' = Some (generateToken rnd') \<longrightarrow> (\<forall>i<DEFAULT_AUTH_TOKEN_LENGTH. rnd' i = rnd i))
           \<and> paired d' \<and> pairingToken d' = None \<and> pairingExpiration d' = None
           \<and> status d' = (if status d = CONNECTED then PAIRED else status d)
           \<and> deviceInfo d' = deviceInfo d \<and> connectionId d' = connectionId d
           \<and> firstSeen d' = firstSeen d \<and> lastSeen d' = lastSeen d"
proof -
  from assms obtain d where d: "map_of (devices r) deviceId = Some d"
    and res: "pairDevice now rnd deviceId token r
           = (\<lparr>success = True,
               resultDevice = Some (d\<lparr>authToken := Some (generateToken rnd), paired := True,
                  pairingToken := None, pairingExpiration := None,
                  status := (if status d = CONNECTED then PAIRED else status d)\<rparr>),
               error = None\<rparr>,
              r\<lparr>devices := AList.update deviceId
                 (d\<lparr>authToken := Some (generateToken rnd), paired := True,
                    pairingToken := None, pairingExpiration := None,
                    status := (if status d = CONNECTED then PAIRED else status d)\<rparr>) (devices r)\<rparr>)"
    by (rule pairDevice_success_eq)
  let ?d' = "d\<lparr>authToken := Some (generateToken rnd), paired := True, pairingToken := None,
                pairingExpiration := None,
                status := (if status d = CONNECTED then PAIRED else status d)\<rparr>"
  have "getDeviceById deviceId (snd (pairDevice now rnd deviceId token r)) = Some ?d'"
    by (simp add: res getDeviceById_def map_of_update_same)
  moreover have "getDeviceById deviceId r = Some d" using d by (simp add: getDeviceById_def)
  moreover have "resultDevice (fst (pairDevice now rnd deviceId token r)) = Some ?d'"
    by (simp add: res)
  moreover have "\<forall>rnd'. authToken ?d' = Some (generateToken rnd')
      \<longrightarrow> (\<forall>i<DEFAULT_AUTH_TOKEN_LENGTH. rnd' i = rnd i)"
  proof (intro allI impI)
    fix rnd' i
    assume "authToken ?d' = Some (generateToken rnd')" and i: "i < DEFAULT_AUTH_TOKEN_LENGTH"
    then have "generateToken rnd' = generateToken rnd" by simp
    then show "rnd' i = rnd i" using i by (rule generateToken_inj)
  qed
  moreover have "length (generateToken rnd) = 2 * DEFAULT_AUTH_TOKEN_LENGTH"
    by (simp add: length_generateToken DEFAULT_AUTH_TOKEN_LENGTH_def)
  moreover have "authToken ?d' = Some (generateToken rnd)" "paired ?d'" "pairingToken ?d' = None"
    "pairingExpiration ?d' = None" "status ?d' = (if status d = CONNECTED then PAIRED else status d)"
    "deviceInfo ?d' = deviceInfo d" "connectionId ?d' = connectionId d"
    "firstSeen ?d' = firstSeen d" "lastSeen ?d' = lastSeen d"
    by simp_all
  ultimately show ?thesis using generateToken_nonempty [of rnd]
    by (intro exI [of _ d] exI [of _ ?d'] conjI) assumption+
qed

theorem pairDevice_success_record_witness:
  "success (fst (pairDevice 2000 (\<lambda>_. 7) ''t1'' (generateToken (\<lambda>_. 0))
      (snd (connectDevice 1500 ''t1'' ''c1''
        (snd (registerDevice 1000 (\<lambda>_. 0)
          \<lparr>id' = ''t1'', name = ''target'', ip = ''10.0.0.5'', mac = None, type' = TARGET,
           supportedCommands = [ARROW_LEFT, ARROW_RIGHT]\<rparr> True emptyRegistry))))))
   \<and> (\<exists>d'. getDeviceById ''t1'' (snd (pairDevice 2000 (\<lambda>_. 7) ''t1'' (generateToken (\<lambda>_. 0))
        (snd (connectDevice 1500 ''t1'' ''c1''
          (snd (registerDevice 1000 (\<lambda>_. 0)
            \<lparr>id' = ''t1'', name = ''target'', ip = ''10.0.0.5'', mac = None, type' = TARGET,
             supportedCommands = [ARROW_LEFT, ARROW_RIGHT]\<rparr> True emptyRegistry)))))) = Some d'
        \<and> authToken d' = Some (generateToken (\<lambda>_. 7)) \<and> paired d'
        \<and> authToken d' \<noteq> Some (generateToken (\<lambda>_. 0))
        \<and> pairingToken d' = None \<and> pairingExpiration d' = None \<and> status d' = PAIRED)"
proof -
  let ?info = "\<lparr>id' = ''t1'', name = ''target'', ip = ''10.0.0.5'', mac = None, type' = TARGET,
                supportedCommands = [ARROW_LEFT, ARROW_RIGHT]\<rparr>"
  let ?r = "snd (connectDevice 1500 ''t1'' ''c1''
              (snd (registerDevice 1000 (\<lambda>_. 0) ?info True emptyRegistry)))"
  let ?d = "\<lparr>deviceInfo = ?info, status = CONNECTED, lastSeen = 1500, firstSeen = 1000,
             connectionId = Some ''c1'', authToken = None, paired = False,
             pairingToken = Some (generateToken (\<lambda>_. 0)), pairingExpiration = Some 301000\<rparr>"
  have devs: "devices ?r = [(''t1'', ?d)]"
    by (simp add: connectDevice_def registerDevice_def emptyRegistry_def findExistingId_def macString_def Let_def)
  have ok: "success (fst (pairDevice 2000 (\<lambda>_. 7) ''t1'' (generateToken (\<lambda>_. 0)) ?r))"
    using generateToken_nonempty [of "\<lambda>_. 0"] by (simp add: pairDevice_def devs Let_def)
  have known: "getDeviceById ''t1'' ?r = Some ?d" by (simp add: getDeviceById_def devs)
  from pairDevice_success_record [OF ok]
  obtain d d' where d: "getDeviceById ''t1'' ?r = Some d"
    and d': "getDeviceById ''t1'' (snd (pairDevice 2000 (\<lambda>_. 7) ''t1'' (generateToken (\<lambda>_. 0)) ?r)) = Some d'"
    and tok: "authToken d' = Some (generateToken (\<lambda>_. 7))"
    and fresh: "\<forall>rnd'. authToken d' = Some (generateToken rnd')
        \<longrightarrow> (\<forall>i<DEFAULT_AUTH_TOKEN_LENGTH. rnd' i = (7 :: 8 word))"
    and rest: "paired d'" "pairingToken d' = None" "pairingExpiration d' = None"
      "status d' = (if status d = CONNECTED then PAIRED else status d)"
    by blast
  have dd: "status d = CONNECTED" using d known by auto
  have st: "status d' = PAIRED" using rest(4) dd by simp
  have other: "authToken d' \<noteq> Some (generateToken (\<lambda>_. 0))"
  proof
    assume "authToken d' = Some (generateToken (\<lambda>_. 0))"
    then have "\<forall>i<DEFAULT_AUTH_TOKEN_LENGTH. (0 :: 8 word) = 7" using fresh by blast
    moreover have "0 < DEFAULT_AUTH_TOKEN_LENGTH" by (simp add: DEFAULT_AUTH_TOKEN_LENGTH_def)
    ultimately have "(0 :: 8 word) = 7" by blast
    then show False by simp
  qed
  have "\<exists>d'. getDeviceById ''t1'' (snd (pairDevice 2000 (\<lambda>_. 7) ''t1'' (generateToken (\<lambda>_. 0)) ?r)) = Some d'
        \<and> authToken d' = Some (generateToken (\<lambda>_. 7)) \<and> paired d'
        \<and> authToken d' \<noteq> Some (generateToken (\<lambda>_. 0))
        \<and> pairingToken d' = None \<and> pairingExpiration d' = None \<and> status d' = PAIRED"
    using d' tok rest(1-3) other st by blast
  then show ?thesis using ok by blast
qed

section \<open>Registry: the authToken invariant\<close>

text \<open>
  C6. In every registry state reachable by \<open>registerDevice\<close>, \<open>connectDevice\<close>,
  \<open>disconnectDevice\<close>, \<open>pairDevice\<close>, \<open>unpairDevice\<close>, \<open>removeDevice\<close>,
  \<open>updateDeviceLastSeen\<close> and \<open>cleanupOldDevices\<close>, every device record has a non-empty
  \<open>authToken\<close> exactly when \<open>paired\<close> is true.
\<close>

theorem authToken_iff_paired:
  assumes "reachable r" and "d \<in> set (getAllDevices r)"
  shows "authNonEmpty d = paired d"
proof -
  have "list_all (\<lambda>(k, d). deviceInv d) (devices r)"
    using reachable_registryInv [OF assms(1)] by (simp add: registryInv_def)
  moreover obtain k where "(k, d) \<in> set (devices r)"
    using assms(2) by (auto simp: getAllDevices_def)
  ultimately have "deviceInv d" by (auto simp: list_all_iff)
  then show ?thesis by (simp add: deviceInv_def)
qed

theorem authToken_iff_paired_witness:
  "reachable (snd (pairDevice 2000 (\<lambda>_. 7) ''t1'' (generateToken (\<lambda>_. 0))
      (snd (registerDevice 1000 (\<lambda>_. 0)
        \<lparr>id' = ''t1'', name = ''target'', ip = ''10.0.0.5'', mac = None, type' = TARGET,
         supportedCommands = [ARROW_LEFT, ARROW_RIGHT]\<rparr> True emptyRegistry))))
   \<and> getAllDevices (snd (pairDevice 2000 (\<lambda>_. 7) ''t1'' (generateToken (\<lambda>_. 0))
      (snd (registerDevice 1000 (\<lambda>_. 0)
        \<lparr>id' = ''t1'', name = ''target'', ip = ''10.0.0.5'', mac = None, type' = TARGET,
         supportedCommands = [ARROW_LEFT, ARROW_RIGHT]\<rparr> True emptyRegistry))))
      = [\<lparr>deviceInfo = \<lparr>id' = ''t1'', name = ''target'', ip = ''10.0.0.5'', mac = None,
                        type' = TARGET, supportedCommands = [ARROW_LEFT, ARROW_RIGHT]\<rparr>,
           status = DISCONNECTED, lastSeen = 1000, firstSeen = 1000, connectionId = None,
           authToken = Some (generateToken (\<lambda>_. 7)), paired = True, pairingToken = None,
           pairingExpiration = None\<rparr>]
   \<and> authNonEmpty \<lparr>deviceInfo = \<lparr>id' = ''t1'', name = ''target'', ip = ''10.0.0.5'', mac = None,
                        type' = TARGET, supportedCommands = [ARROW_LEFT, ARROW_RIGHT]\<rparr>,
           status = DISCONNECTED, lastSeen = 1000, firstSeen = 1000, connectionId = None,
           authToken = Some (generateToken (\<lambda>_. 7)), paired = True, pairingToken = None,
           pairingExpiration = None\<rparr>"
proof -
  let ?info = "\<lparr>id' = ''t1'', name = ''target'', ip = ''10.0.0.5'', mac = None, type' = TARGET,
                supportedCommands = [ARROW_LEFT, ARROW_RIGHT]\<rparr>"
  let ?r = "snd (pairDevice 2000 (\<lambda>_. 7) ''t1'' (generateToken (\<lambda>_. 0))
              (snd (registerDevice 1000 (\<lambda>_. 0) ?info True emptyRegistry)))"
  let ?d = "\<lparr>deviceInfo = ?info, status = DISCONNECTED, lastSeen = 1000, firstSeen = 1000,
             connectionId = None, authToken = Some (generateToken (\<lambda>_. 7)), paired = True,
             pairingToken = None, pairingExpiration = None\<rparr>"
  have reach: "reachable ?r"
    by (rule reachable_pair) (rule reachable_register, rule reachable_init)
  have all: "getAllDevices ?r = [?d]"
    using generateToken_nonempty [of "\<lambda>_. 0"]
    by (simp add: getAllDevices_def pairDevice_def registerDevice_def emptyRegistry_def
        findExistingId_def macString_def Let_def)
  have mem: "?d \<in> set (getAllDevices ?r)" by (simp add: all)
  have "authNonEmpty ?d = paired ?d" using reach mem by (rule authToken_iff_paired)
  then have "authNonEmpty ?d" by simp
  then show ?thesis using reach all by blast
qed

section \<open>Registry: registration\<close>

text \<open>
  C8. A device registers as \<open>a\<close> at 10.0.0.1, registers again as \<open>a\<close> from 10.0.0.2 (the
  update path changes its address and leaves \<open>ipToIdMap\<close> untouched), and then a device with
  the new id \<open>b\<close> registers from 10.0.0.2. The lookup by address misses the record of \<open>a\<close>:
  the registry ends with two entries, both at 10.0.0.2, and the index still maps 10.0.0.1
  to \<open>a\<close>.
\<close>

theorem registerDevice_stale_ip_index:
  "map (\<lambda>(k, d). (k, ip (deviceInfo d)))
     (devices (snd (registerDevice 3000 (\<lambda>_. 2)
        \<lparr>id' = ''b'', name = ''target'', ip = ''10.0.0.2'', mac = None, type' = TARGET,
         supportedCommands = [ARROW_LEFT, ARROW_RIGHT]\<rparr> True
        (snd (registerDevice 2000 (\<lambda>_. 1)
          \<lparr>id' = ''a'', name = ''target'', ip = ''10.0.0.2'', mac = None, type' = TARGET,
           supportedCommands = [ARROW_LEFT, ARROW_RIGHT]\<rparr> True
          (snd (registerDevice 1000 (\<lambda>_. 0)
            \<lparr>id' = ''a'', name = ''target'', ip = ''10.0.0.1'', mac = None, type' = TARGET,
             supportedCommands = [ARROW_LEFT, ARROW_RIGHT]\<rparr> True emptyRegistry)))))))
     = [(''a'', ''10.0.0.2''), (''b'', ''10.0.0.2'')]
   \<and> ipToIdMap (snd (registerDevice 3000 (\<lambda>_. 2)
        \<lparr>id' = ''b'', name = ''target'', ip = ''10.0.0.2'', mac = None, type' = TARGET,
         supportedCommands = [ARROW_LEFT, ARROW_RIGHT]\<rparr> True
        (snd (registerDevice 2000 (\<lambda>_. 1)
          \<lparr>id' = ''a'', name = ''target'', ip = ''10.0.0.2'', mac = None, type' = TARGET,
           supportedCommands = [ARROW_LEFT, ARROW_RIGHT]\<rparr> True
          (snd (registerDevice 1000 (\<lambda>_. 0)
            \<lparr>id' = ''a'', name = ''target'', ip = ''10.0.0.1'', mac = None, type' = TARGET,
             supportedCommands = [ARROW_LEFT, ARROW_RIGHT]\<rparr> True emptyRegistry))))))
     = [(''10.0.0.1'', ''a''), (''10.0.0.2'', ''b'')]"
  by (simp add: registerDevice_def emptyRegistry_def findExistingId_def macString_def indexSet_def
      mergeDeviceInfo_def Let_def)

section \<open>Registry: listing paired devices\<close>

text \<open>
  C10. \<open>getPairedDevices\<close> returns, in registry order, exactly the records with \<open>paired\<close>
  set and status \<open>PAIRED\<close>. A paired device that disconnects stays paired but is no longer
  listed; and a device whose pairing succeeds while its status is neither \<open>CONNECTED\<close> nor
  \<open>PAIRED\<close> keeps that status, so it is paired and not listed.
\<close>

theorem getPairedDevices_exactly:
  "getPairedDevices r = map snd (filter (\<lambda>(k, d). paired d \<and> status d = PAIRED) (devices r))
   \<and> (\<forall>d. getDeviceById deviceId r = Some d \<and> paired d \<longrightarrow>
         (\<exists>d'. getDeviceById deviceId (snd (disconnectDevice now deviceId r)) = Some d'
               \<and> paired d' \<and> d' \<notin> set (getPairedDevices (snd (disconnectDevice now deviceId r)))))
   \<and> (\<forall>d. getDeviceById deviceId r = Some d \<and> status d \<noteq> CONNECTED \<and> status d \<noteq> PAIRED
           \<and> success (fst (pairDevice now rnd deviceId token r)) \<longrightarrow>
         (\<exists>d'. getDeviceById deviceId (snd (pairDevice now rnd deviceId token r)) = Some d'
               \<and> paired d' \<and> status d' = status d
               \<and> d' \<notin> set (getPairedDevices (snd (pairDevice now rnd deviceId token r)))))"
proof (intro conjI allI impI)
  show "getPairedDevices r = map snd (filter (\<lambda>(k, d). paired d \<and> status d = PAIRED) (devices r))"
    by (simp add: getPairedDevices_def getAllDevices_def filter_map comp_def case_prod_unfold)
next
  fix d
  assume a: "getDeviceById deviceId r = Some d \<and> paired d"
  let ?d' = "d\<lparr>status := DISCONNECTED, connectionId := None, lastSeen := now\<rparr>"
  have "getDeviceById deviceId (snd (disconnectDevice now deviceId r)) = Some ?d'"
    using a by (simp add: disconnectDevice_def getDeviceById_def Let_def map_of_update_same)
  moreover have "?d' \<notin> set (getPairedDevices (snd (disconnectDevice now deviceId r)))"
    by (simp add: getPairedDevices_def)
  ultimately show "\<exists>d'. getDeviceById deviceId (snd (disconnectDevice now deviceId r)) = Some d'
      \<and> paired d' \<and> d' \<notin> set (getPairedDevices (snd (disconnectDevice now deviceId r)))"
    using a by (intro exI [of _ ?d']) simp
next
  fix d
  assume a: "getDeviceById deviceId r = Some d \<and> status d \<noteq> CONNECTED \<and> status d \<noteq> PAIRED
      \<and> success (fst (pairDevice now rnd deviceId token r))"
  then have known: "map_of (devices r) deviceId = Some d"
    and st: "status d \<noteq> CONNECTED" "status d \<noteq> PAIRED"
    and ok: "success (fst (pairDevice now rnd deviceId token r))"
    by (simp_all add: getDeviceById_def)
  let ?d' = "d\<lparr>authToken := Some (generateToken rnd), paired := True, pairingToken := None,
                pairingExpiration := None,
                status := (if status d = CONNECTED then PAIRED else status d)\<rparr>"
  from ok obtain d0 where d0: "map_of (devices r) deviceId = Some d0"
    and res: "pairDevice now rnd deviceId token r
           = (\<lparr>success = True,
               resultDevice = Some (d0\<lparr>authToken := Some (generateToken rnd), paired := True,
                  pairingToken := None, pairingExpiration := None,
                  status := (if status d0 = CONNECTED then PAIRED else status d0)\<rparr>),
               error = None\<rparr>,
              r\<lparr>devices := AList.update deviceId
                 (d0\<lparr>authToken := Some (generateToken rnd), paired := True,
                    pairingToken := None, pairingExpiration := None,
                    status := (if status d0 = CONNECTED then PAIRED else status d0)\<rparr>) (devices r)\<rparr>)"
    by (rule pairDevice_success_eq)
  have eq: "d0 = d" using d0 known by simp
  have "getDeviceById deviceId (snd (pairDevice now rnd deviceId token r)) = Some ?d'"
    by (simp add: res eq getDeviceById_def map_of_update_same)
  moreover have "?d' \<notin> set (getPairedDevices (snd (pairDevice now rnd deviceId token r)))"
    using st by (simp add: getPairedDevices_def)
  ultimately show "\<exists>d'. getDeviceById deviceId (snd (pairDevice now rnd deviceId token r)) = Some d'
      \<and> paired d' \<and> status d' = status d
      \<and> d' \<notin> set (getPairedDevices (snd (pairDevice now rnd deviceId token r)))"
    using st by (intro exI [of _ ?d']) simp
qed

theorem getPairedDevices_exactly_witness:
  "getPairedDevices (snd (pairDevice 2000 (\<lambda>_. 7) ''t1'' (generateToken (\<lambda>_. 0))
      (snd (registerDevice 1000 (\<lambda>_. 0)
        \<lparr>id' = ''t1'', name = ''target'', ip = ''10.0.0.5'', mac = None, type' = TARGET,
         supportedCommands = [ARROW_LEFT, ARROW_RIGHT]\<rparr> True emptyRegistry)))) = []
   \<and> (\<exists>d'. getDeviceById ''t1'' (snd (pairDevice 2000 (\<lambda>_. 7) ''t1'' (generateToken (\<lambda>_. 0))
        (snd (registerDevice 1000 (\<lambda>_. 0)
          \<lparr>id' = ''t1'', name = ''target'', ip = ''10.0.0.5'', mac = None, type' = TARGET,
           supportedCommands = [ARROW_LEFT, ARROW_RIGHT]\<rparr> True emptyRegistry)))) = Some d'
        \<and> paired d' \<and> status d' = DISCONNECTED)
   \<and> (\<exists>d'. getDeviceById ''t1'' (snd (disconnectDevice 3000 ''t1''
        (snd (pairDevice 2000 (\<lambda>_. 7) ''t1'' (generateToken (\<lambda>_. 0))
          (snd (connectDevice 1500 ''t1'' ''c1''
            (snd (registerDevice 1000 (\<lambda>_. 0)
              \<lparr>id' = ''t1'', name = ''target'', ip = ''10.0.0.5'', mac = None, type' = TARGET,
               supportedCommands = [ARROW_LEFT, ARROW_RIGHT]\<rparr> True emptyRegistry)))))))) = Some d'
        \<and> paired d'
        \<and> d' \<notin> set (getPairedDevices (snd (disconnectDevice 3000 ''t1''
            (snd (pairDevice 2000 (\<lambda>_. 7) ''t1'' (generateToken (\<lambda>_. 0))
              (snd (connectDevice 1500 ''t1'' ''c1''
                (snd (registerDevice 1000 (\<lambda>_. 0)
                  \<lparr>id' = ''t1'', name = ''target'', ip = ''10.0.0.5'', mac = None, type' = TARGET,
                   supportedCommands = [ARROW_LEFT, ARROW_RIGHT]\<rparr> True emptyRegistry))))))))))"
proof -
  let ?info = "\<lparr>id' = ''t1'', name = ''target'', ip = ''10.0.0.5'', mac = None, type' = TARGET,
                supportedCommands = [ARROW_LEFT, ARROW_RIGHT]\<rparr>"
  let ?r0 = "snd (registerDevice 1000 (\<lambda>_. 0) ?info True emptyRegistry)"
  let ?d0 = "\<lparr>deviceInfo = ?info, status = DISCONNECTED, lastSeen = 1000, firstSeen = 1000,
              connectionId = None, authToken = None, paired = False,
              pairingToken = Some (generateToken (\<lambda>_. 0)), pairingExpiration = Some 301000\<rparr>"
  let ?p0 = "pairDevice 2000 (\<lambda>_. 7) ''t1'' (generateToken (\<lambda>_. 0)) ?r0"
  let ?r1 = "snd (pairDevice 2000 (\<lambda>_. 7) ''t1'' (generateToken (\<lambda>_. 0))
               (snd (connectDevice 1500 ''t1'' ''c1'' ?r0)))"
  let ?d1 = "\<lparr>deviceInfo = ?info, status = PAIRED, lastSeen = 1500, firstSeen = 1000,
              connectionId = Some ''c1'', authToken = Some (generateToken (\<lambda>_. 7)), paired = True,
              pairingToken = None, pairingExpiration = None\<rparr>"
  have devs0: "devices ?r0 = [(''t1'', ?d0)]"
    by (simp add: registerDevice_def emptyRegistry_def findExistingId_def macString_def Let_def)
  have known0: "getDeviceById ''t1'' ?r0 = Some ?d0" by (simp add: getDeviceById_def devs0)
  have ok0: "success (fst ?p0)"
    using generateToken_nonempty [of "\<lambda>_. 0"] by (simp add: pairDevice_def devs0 Let_def)
  have devs1: "devices ?r1 = [(''t1'', ?d1)]"
    using generateToken_nonempty [of "\<lambda>_. 0"]
    by (simp add: pairDevice_def connectDevice_def devs0 Let_def)
  have known1: "getDeviceById ''t1'' ?r1 = Some ?d1" by (simp add: getDeviceById_def devs1)
  note a = getPairedDevices_exactly [of "snd ?p0"]
  note b = getPairedDevices_exactly [of ?r0 "''t1''" 2000 "\<lambda>_. 7" "generateToken (\<lambda>_. 0)"]
  note c = getPairedDevices_exactly [of ?r1 "''t1''" 3000]
  have 1: "getPairedDevices (snd ?p0) = []"
    using a generateToken_nonempty [of "\<lambda>_. 0"] by (simp add: pairDevice_def devs0 Let_def)
  have 2: "\<exists>d'. getDeviceById ''t1'' (snd ?p0) = Some d' \<and> paired d' \<and> status d' = DISCONNECTED"
    using b known0 ok0 by auto
  have 3: "\<exists>d'. getDeviceById ''t1'' (snd (disconnectDevice 3000 ''t1'' ?r1)) = Some d' \<and> paired d'
             \<and> d' \<notin> set (getPairedDevices (snd (disconnectDevice 3000 ''t1'' ?r1)))"
    using c known1 by auto
  show ?thesis using 1 2 3 by blast
qed

section \<open>Message validation\<close>

text \<open>
  C9, as stated, at concrete inputs. A message whose fields are all present and valid, with
  \<open>timestamp\<close> the number 0, is rejected as missing required fields. A message whose
  \<open>type\<close> is a boolean, whose \<open>version\<close> is an array, whose \<open>timestamp\<close> is a string and whose
  \<open>sender.id\<close> is an object is accepted. And a message without \<open>type\<close> and a message
  without \<open>sender\<close> receive the same rejection, which names neither field.
\<close>

theorem validateMessage_present_valid_counterexample:
  "presentAndValid (JObject [(''type'', JString ''heartbeat''), (''version'', JString ''1.0.0''),
      (''timestamp'', JNumber 0),
      (''sender'', JObject [(''id'', JString ''t1''), (''type'', JString ''target'')])])
   \<and> validateMessage (JObject [(''type'', JString ''heartbeat''), (''version'', JString ''1.0.0''),
      (''timestamp'', JNumber 0),
      (''sender'', JObject [(''id'', JString ''t1''), (''type'', JString ''target'')])])
      = invalid ''Message missing required fields''
   \<and> \<not> presentAndValid (JObject [(''type'', JBool True), (''version'', JArray []),
      (''timestamp'', JString ''yesterday''),
      (''sender'', JObject [(''id'', JObject []), (''type'', JString ''target'')])])
   \<and> validateMessage (JObject [(''type'', JBool True), (''version'', JArray []),
      (''timestamp'', JString ''yesterday''),
      (''sender'', JObject [(''id'', JObject []), (''type'', JString ''target'')])])
      = \<lparr>valid = True, error' = None\<rparr>
   \<and> validateMessage (JObject [(''version'', JString ''1.0.0''), (''timestamp'', JNumber 5),
      (''sender'', JObject [(''id'', JString ''t1''), (''type'', JString ''target'')])])
      = invalid ''Message missing required fields''
   \<and> validateMessage (JObject [(''type'', JString ''heartbeat''), (''version'', JString ''1.0.0''),
      (''timestamp'', JNumber 5)])
      = invalid ''Message missing required fields''"
  by (simp add: validateMessage_def presentAndValid_def hasField_def invalid_def)

text \<open>
  C9, amended. \<open>validateMessage\<close> accepts exactly when the message is an object other
  than \<^verbatim>\<open>null\<close>, its \<open>type\<close>, \<open>version\<close>, \<open>timestamp\<close>, \<open>sender\<close> and \<open>sender.id\<close> hold truthy
  values of any type, and its \<open>sender.type\<close> is the string \<open>controller\<close> or \<open>target\<close>. It
  rejects with the text of the first of four tests that fails: the message is not such an
  object; one of \<open>type\<close>, \<open>version\<close>, \<open>timestamp\<close>, \<open>sender\<close> is falsy (one text for the four);
  \<open>sender.id\<close> or \<open>sender.type\<close> is falsy; \<open>sender.type\<close> is neither string. An accepted
  message carries no error text and a rejected one carries one.
\<close>

theorem validateMessage_truthiness:
  "valid (validateMessage m) =
     (truthy m \<and> typeofObject m
      \<and> truthy (getprop m ''type'') \<and> truthy (getprop m ''version'')
      \<and> truthy (getprop m ''timestamp'') \<and> truthy (getprop m ''sender'')
      \<and> truthy (getprop (getprop m ''sender'') ''id'')
      \<and> getprop (getprop m ''sender'') ''type'' \<in> {JString ''controller'', JString ''target''})
   \<and> (error' (validateMessage m) = Some ''Message must be an object'')
       = (\<not> (truthy m \<and> typeofObject m))
   \<and> (error' (validateMessage m) = Some ''Message missing required fields'')
       = (truthy m \<and> typeofObject m
          \<and> \<not> (truthy (getprop m ''type'') \<and> truthy (getprop m ''version'')
               \<and> truthy (getprop m ''timestamp'') \<and> truthy (getprop m ''sender'')))
   \<and> (error' (validateMessage m) = Some ''Sender missing required fields'')
       = (truthy m \<and> typeofObject m
          \<and> truthy (getprop m ''type'') \<and> truthy (getprop m ''version'')
          \<and> truthy (getprop m ''timestamp'') \<and> truthy (getprop m ''sender'')
          \<and> \<not> (truthy (getprop (getprop m ''sender'') ''id'')
               \<and> truthy (getprop (getprop m ''sender'') ''type'')))
   \<and> (error' (validateMessage m) = Some ''Invalid sender type'')
       = (truthy m \<and> typeofObject m
          \<and> truthy (getprop m ''type'') \<and> truthy (getprop m ''version'')
          \<and> truthy (getprop m ''timestamp'') \<and> truthy (getprop m ''sender'')
          \<and> truthy (getprop (getprop m ''sender'') ''id'')
          \<and> truthy (getprop (getprop m ''sender'') ''type'')
          \<and> getprop (getprop m ''sender'') ''type'' \<notin> {JString ''controller'', JString ''target''})
   \<and> valid (validateMessage m) = (error' (validateMessage m) = None)
   \<and> (valid (validateMessage m)
       \<or> error' (validateMessage m) \<in> Some ` {''Message must be an object'',
            ''Message missing required fields'', ''Sender missing required fields'',
            ''Invalid sender type''})"
proof -
  have typed: "getprop (getprop m ''sender'') ''type'' \<in> {JString ''controller'', JString ''target''}
      \<Longrightarrow> truthy (getprop (getprop m ''sender'') ''type'')"
    by auto
  have 1: "valid (validateMessage m) =
     (truthy m \<and> typeofObject m
      \<and> truthy (getprop m ''type'') \<and> truthy (getprop m ''version'')
      \<and> truthy (getprop m ''timestamp'') \<and> truthy (getprop m ''sender'')
      \<and> truthy (getprop (getprop m ''sender'') ''id'')
      \<and> getprop (getprop m ''sender'') ''type'' \<in> {JString ''controller'', JString ''target''})"
    using typed by (auto simp: validateMessage_def invalid_def)
  have 2: "(error' (validateMessage m) = Some ''Message must be an object'')
       = (\<not> (truthy m \<and> typeofObject m))"
    using typed by (auto simp: validateMessage_def invalid_def)
  have 3: "(error' (validateMessage m) = Some ''Message missing required fields'')
       = (truthy m \<and> typeofObject m
          \<and> \<not> (truthy (getprop m ''type'') \<and> truthy (getprop m ''version'')
               \<and> truthy (getprop m ''timestamp'') \<and> truthy (getprop m ''sender'')))"
    using typed by (auto simp: validateMessage_def invalid_def)
  have 4: "(error' (validateMessage m) = Some ''Sender missing required fields'')
       = (truthy m \<and> typeofObject m
          \<and> truthy (getprop m ''type'') \<and> truthy (getprop m ''version'')
          \<and> truthy (getprop m ''timestamp'') \<and> truthy (getprop m ''sender'')
          \<and> \<not> (truthy (getprop (getprop m ''sender'') ''id'')
               \<and> truthy (getprop (getprop m ''sender'') ''type'')))"
    using typed by (auto simp: validateMessage_def invalid_def)
  have 5: "(error' (validateMessage m) = Some ''Invalid sender type'')
       = (truthy m \<and> typeofObject m
          \<and> truthy (getprop m ''type'') \<and> truthy (getprop m ''version'')
          \<and> truthy (getprop m ''timestamp'') \<and> truthy (getprop m ''sender'')
          \<and> truthy (getprop (getprop m ''sender'') ''id'')
          \<and> truthy (getprop (getprop m ''sender'') ''type'')
          \<and> getprop (getprop m ''sender'') ''type'' \<notin> {JString ''controller'', JString ''target''})"
    using typed by (auto simp: validateMessage_def invalid_def)
  have 6: "valid (validateMessage m) = (error' (validateMessage m) = None)"
    using typed by (auto simp: validateMessage_def invalid_def)
  have 7: "valid (validateMessage m)
       \<or> error' (validateMessage m) \<in> Some ` {''Message must be an object'',
            ''Message missing required fields'', ''Sender missing required fields'',
            ''Invalid sender type''}"
    using typed by (auto simp: validateMessage_def invalid_def)
  show ?thesis using 1 2 3 4 5 6 7 by blast
qed

theorem validateMessage_truthiness_witness:
  "valid (validateMessage (JObject [(''type'', JString ''heartbeat''), (''version'', JString ''1.0.0''),
      (''timestamp'', JNumber 1700000000000),
      (''sender'', JObject [(''id'', JString ''t1''), (''type'', JString ''target'')])]))
   \<and> error' (validateMessage (JObject [(''type'', JString ''heartbeat''), (''version'', JString ''1.0.0''),
      (''timestamp'', JNumber 1700000000000),
      (''sender'', JObject [(''id'', JString ''t1''), (''type'', JString ''target'')])])) = None
   \<and> error' (validateMessage (JObject [(''type'', JString ''heartbeat''), (''version'', JString ''1.0.0''),
      (''timestamp'', JNumber 0),
      (''sender'', JObject [(''id'', JString ''t1''), (''type'', JString ''target'')])]))
      = Some ''Message missing required fields''
   \<and> error' (validateMessage (JObject [(''type'', JString ''heartbeat''), (''version'', JString ''1.0.0''),
      (''timestamp'', JNumber 5),
      (''sender'', JObject [(''id'', JString ''t1''), (''type'', JString ''robot'')])]))
      = Some ''Invalid sender type''
   \<and> error' (validateMessage (JString ''hello'')) = Some ''Message must be an object''"
proof -
  let ?ok = "JObject [(''type'', JString ''heartbeat''), (''version'', JString ''1.0.0''),
      (''timestamp'', JNumber 1700000000000),
      (''sender'', JObject [(''id'', JString ''t1''), (''type'', JString ''target'')])]"
  let ?zero = "JObject [(''type'', JString ''heartbeat''), (''version'', JString ''1.0.0''),
      (''timestamp'', JNumber 0),
      (''sender'', JObject [(''id'', JString ''t1''), (''type'', JString ''target'')])]"
  let ?robot = "JObject [(''type'', JString ''heartbeat''), (''version'', JString ''1.0.0''),
      (''timestamp'', JNumber 5),
      (''sender'', JObject [(''id'', JString ''t1''), (''type'', JString ''robot'')])]"
  have 1: "valid (validateMessage ?ok)"
    using validateMessage_truthiness [of ?ok] by simp
  have 2: "error' (validateMessage ?ok) = None"
    using validateMessage_truthiness [of ?ok] 1 by blast
  have 3: "error' (validateMessage ?zero) = Some ''Message missing required fields''"
    using validateMessage_truthiness [of ?zero] by simp
  have 4: "error' (validateMessage ?robot) = Some ''Invalid sender type''"
    using validateMessage_truthiness [of ?robot] by simp
  have 5: "error' (validateMessage (JString ''hello'')) = Some ''Message must be an object''"
    using validateMessage_truthiness [of "JString ''hello''"] by simp
  show ?thesis using 1 2 3 4 5 by blast
qed

section \<open>Control server: helper lemmas\<close>

lemma registerDevice_stores:
  "map_of (devices (snd (registerDevice now rnd info rp r))) (id' info)
     = Some (fst (registerDevice now rnd info rp r))
   \<and> id' (deviceInfo (fst (registerDevice now rnd info rp r))) = id' info"
  by (auto simp: registerDevice_def Let_def map_of_update_same mergeDeviceInfo_def
      split: option.splits)

lemma connectDevice_known:
  "map_of (devices r) deviceId = Some d \<Longrightarrow>
   map_of (devices (snd (connectDevice now deviceId cid r))) deviceId
     = Some (d\<lparr>status := (if paired d then PAIRED else CONNECTED), connectionId := Some cid,
               lastSeen := now\<rparr>)"
  by (simp add: connectDevice_def Let_def map_of_update_same)

lemma pairDevice_failure_cases:
  assumes "\<not> success (fst (pairDevice now rnd deviceId token r))"
  shows "snd (pairDevice now rnd deviceId token r) = r
       \<and> (\<exists>reason. error (fst (pairDevice now rnd deviceId token r)) = Some reason \<and> reason \<noteq> []
            \<and> reason \<in> {''Device not found'', ''Device does not support pairing'',
                          ''Invalid pairing token'', ''Pairing token expired''})"
  using assms
  by (cases "map_of (devices r) deviceId")
    (auto simp: pairDevice_def failure_def Let_def split: if_splits)

lemma update_other: "k \<noteq> k' \<Longrightarrow> map_of (AList.update k' v al) k = map_of al k"
  by (simp add: update_conv')

lemma keys_update_known:
  "map_of al k = Some v \<Longrightarrow> map fst (AList.update k v' al) = map fst al"
  by (induction al) (auto split: if_splits)

lemma sendArrowCommand_failure_unchanged:
  assumes "fst (sendArrowCommand now deviceId direction repeat holdTime s) = Inl f"
  shows "snd (sendArrowCommand now deviceId direction repeat holdTime s) = s"
proof (cases "getDeviceById deviceId (deviceRegistry s)")
  case None
  then show ?thesis by (simp add: sendArrowCommand_def)
next
  case (Some d)
  show ?thesis
  proof (cases "(status d \<noteq> CONNECTED \<and> status d \<noteq> PAIRED) \<or> \<not> paired d
      \<or> (if direction = DirLeft then ARROW_LEFT else ARROW_RIGHT) \<notin> set (supportedCommands (deviceInfo d))")
    case True
    then show ?thesis using Some unfolding sendArrowCommand_def Let_def by auto
  next
    case pre: False
    show ?thesis
    proof (cases "getConnectionByDeviceId deviceId s")
      case None
      then show ?thesis using Some pre unfolding sendArrowCommand_def Let_def by auto
    next
      case (Some c)
      show ?thesis
      proof (cases "readyOpen c")
        case True
        then have "fst (sendArrowCommand now deviceId direction repeat holdTime s) = Inr True"
          using \<open>getDeviceById deviceId (deviceRegistry s) = Some d\<close> pre Some
          unfolding sendArrowCommand_def Let_def sendMessage_def by auto
        then show ?thesis using assms by simp
      next
        case False
        then show ?thesis
          using \<open>getDeviceById deviceId (deviceRegistry s) = Some d\<close> pre Some
          unfolding sendArrowCommand_def Let_def sendMessage_def by auto
      qed
    qed
  qed
qed

section \<open>Control server: pairing requests\<close>

text \<open>
  C1, as stated, at a concrete input: a target registers on connection \<open>c1\<close> and then sends
  a pairing request with a token that is not the issued one. The server's reply is a
  message of type \<open>error\<close> carrying code 101 and the registry's reason; no message of type
  \<open>pairing_response\<close> is written.
\<close>

theorem pairing_failure_reply_counterexample:
  "map (\<lambda>(k, m). (k, msg_type m, data m))
     (outbox (handlePairingRequestMessage 2000 (\<lambda>_. 1) ''c1'' (Some ''abc'')
        (handleRegisterMessage 1000 (\<lambda>_. 0) ''c1''
           (Some \<lparr>id' = ''t1'', name = ''target'', ip = ''10.0.0.5'', mac = None, type' = TARGET,
                  supportedCommands = [ARROW_LEFT, ARROW_RIGHT]\<rparr>)
           (handleConnection 900 ''c1'' (newServer ''ctl'' emptyRegistry)))))
   = [(''c1'', ''registered'', RegisteredData ''t1'' True (Some (generateToken (\<lambda>_. 0)))),
      (''c1'', ''error'', ErrorData 101 ''Invalid pairing token'')]"
proof -
  have neq: "generateToken (\<lambda>_. 0) \<noteq> ''abc''" using length_generateToken [of "\<lambda>_. 0"] by auto
  show ?thesis
    using neq generateToken_nonempty [of "\<lambda>_. 0"]
    by (simp add: handlePairingRequestMessage_def handleRegisterMessage_def handleConnection_def
        newServer_def sendMessage_def createErrorMessage_def createBaseMessage_def withData_def
        registerDevice_def connectDevice_def pairDevice_def failure_def emptyRegistry_def
        findExistingId_def macString_def indexSet_def Let_def AUTHENTICATION_FAILED_def)
qed

text \<open>
  C1, amended. For every pairing request with a non-empty token on a connection bound to a
  device, when the registry's \<open>pairDevice\<close> fails the server writes to that connection (if
  its socket is open) one \<open>error\<close> message with code \<open>AUTHENTICATION_FAILED\<close> whose text is
  the registry's reason, and changes nothing else: the registry and the connection table
  are as before.
\<close>

theorem pairing_failure_reply:
  assumes "map_of (connections s) cid = Some c"
    and "ws_deviceId c = Some deviceId" and "deviceId \<noteq> []" and "token \<noteq> []"
    and "\<not> success (fst (pairDevice now rnd deviceId token (deviceRegistry s)))"
  shows "\<exists>reason. error (fst (pairDevice now rnd deviceId token (deviceRegistry s))) = Some reason
           \<and> handlePairingRequestMessage now rnd cid (Some token) s
               = (if readyOpen c
                  then s\<lparr>outbox := outbox s @
                         [(ws_connectionId c,
                           createErrorMessage now (controllerId s) CONTROLLER AUTHENTICATION_FAILED
                             reason)]\<rparr>
                  else s)"
proof -
  obtain result r1 where p: "pairDevice now rnd deviceId token (deviceRegistry s) = (result, r1)"
    by (cases "pairDevice now rnd deviceId token (deviceRegistry s)")
  from pairDevice_failure_cases [OF assms(5)] p
  obtain reason where r1: "r1 = deviceRegistry s"
    and reason: "error result = Some reason" "reason \<noteq> []"
    by auto
  have fail: "\<not> success result" using assms(5) p by simp
  have "handlePairingRequestMessage now rnd cid (Some token) s
          = (if readyOpen c
             then s\<lparr>outbox := outbox s @
                    [(ws_connectionId c,
                      createErrorMessage now (controllerId s) CONTROLLER AUTHENTICATION_FAILED
                        reason)]\<rparr>
             else s)"
    using assms(1-4) p fail reason r1
    by (simp add: handlePairingRequestMessage_def sendMessage_def)
  then show ?thesis using reason p by auto
qed

theorem pairing_failure_reply_witness:
  "handlePairingRequestMessage 2000 (\<lambda>_. 1) ''c1'' (Some ''abc'')
     (handleRegisterMessage 1000 (\<lambda>_. 0) ''c1''
        (Some \<lparr>id' = ''t1'', name = ''target'', ip = ''10.0.0.5'', mac = None, type' = TARGET,
               supportedCommands = [ARROW_LEFT, ARROW_RIGHT]\<rparr>)
        (handleConnection 900 ''c1'' (newServer ''ctl'' emptyRegistry)))
   = (handleRegisterMessage 1000 (\<lambda>_. 0) ''c1''
        (Some \<lparr>id' = ''t1'', name = ''target'', ip = ''10.0.0.5'', mac = None, type' = TARGET,
               supportedCommands = [ARROW_LEFT, ARROW_RIGHT]\<rparr>)
        (handleConnection 900 ''c1'' (newServer ''ctl'' emptyRegistry)))
     \<lparr>outbox := outbox (handleRegisterMessage 1000 (\<lambda>_. 0) ''c1''
        (Some \<lparr>id' = ''t1'', name = ''target'', ip = ''10.0.0.5'', mac = None, type' = TARGET,
               supportedCommands = [ARROW_LEFT, ARROW_RIGHT]\<rparr>)
        (handleConnection 900 ''c1'' (newServer ''ctl'' emptyRegistry))) @
        [(''c1'', createErrorMessage 2000 ''ctl'' CONTROLLER AUTHENTICATION_FAILED
                   ''Invalid pairing token'')]\<rparr>"
proof -
  let ?info = "\<lparr>id' = ''t1'', name = ''target'', ip = ''10.0.0.5'', mac = None, type' = TARGET,
                supportedCommands = [ARROW_LEFT, ARROW_RIGHT]\<rparr>"
  let ?s = "handleRegisterMessage 1000 (\<lambda>_. 0) ''c1'' (Some ?info)
              (handleConnection 900 ''c1'' (newServer ''ctl'' emptyRegistry))"
  let ?c = "\<lparr>ws_connectionId = ''c1'', ws_deviceId = Some ''t1'', isAlive = True,
             lastActivity = 900, readyOpen = True\<rparr>"
  let ?d = "\<lparr>deviceInfo = ?info, status = CONNECTED, lastSeen = 1000, firstSeen = 1000,
             connectionId = Some ''c1'', authToken = None, paired = False,
             pairingToken = Some (generateToken (\<lambda>_. 0)), pairingExpiration = Some 301000\<rparr>"
  have conns: "connections ?s = [(''c1'', ?c)]"
    and devs: "devices (deviceRegistry ?s) = [(''t1'', ?d)]"
    and ctl: "controllerId ?s = ''ctl''"
    by (simp_all add: handleRegisterMessage_def handleConnection_def newServer_def sendMessage_def
        registerDevice_def connectDevice_def emptyRegistry_def findExistingId_def macString_def Let_def)
  have neq: "generateToken (\<lambda>_. 0) \<noteq> ''abc''" using length_generateToken [of "\<lambda>_. 0"] by auto
  have pd: "pairDevice 2000 (\<lambda>_. 1) ''t1'' ''abc'' (deviceRegistry ?s)
              = (failure ''Invalid pairing token'', deviceRegistry ?s)"
    using neq generateToken_nonempty [of "\<lambda>_. 0"] by (simp add: pairDevice_def devs)
  have look: "map_of (connections ?s) ''c1'' = Some ?c" by (simp add: conns)
  have fail: "\<not> success (fst (pairDevice 2000 (\<lambda>_. 1) ''t1'' ''abc'' (deviceRegistry ?s)))"
    by (simp add: pd failure_def)
  from pairing_failure_reply [OF look _ _ _ fail]
  show ?thesis by (simp add: pd failure_def ctl)
qed

section \<open>Control server: registration\<close>

text \<open>
  C2, as stated, at a concrete input: two connections \<open>c1\<close> and \<open>c2\<close> are open and the same
  target registers first on \<open>c1\<close>, then on \<open>c2\<close>. Afterwards both connections are in the
  table, open and bound to \<open>t1\<close>, and a lookup by device still returns the older one.
\<close>

theorem register_two_connections_counterexample:
  "map ws_connectionId (liveConnectionsOf ''t1''
     (handleRegisterMessage 1100 (\<lambda>_. 1) ''c2''
        (Some \<lparr>id' = ''t1'', name = ''target'', ip = ''10.0.0.5'', mac = None, type' = TARGET,
               supportedCommands = [ARROW_LEFT, ARROW_RIGHT]\<rparr>)
        (handleRegisterMessage 1000 (\<lambda>_. 0) ''c1''
           (Some \<lparr>id' = ''t1'', name = ''target'', ip = ''10.0.0.5'', mac = None, type' = TARGET,
                  supportedCommands = [ARROW_LEFT, ARROW_RIGHT]\<rparr>)
           (handleConnection 950 ''c2'' (handleConnection 900 ''c1'' (newServer ''ctl'' emptyRegistry))))))
   = [''c1'', ''c2'']
   \<and> map_option ws_connectionId (getConnectionByDeviceId ''t1''
     (handleRegisterMessage 1100 (\<lambda>_. 1) ''c2''
        (Some \<lparr>id' = ''t1'', name = ''target'', ip = ''10.0.0.5'', mac = None, type' = TARGET,
               supportedCommands = [ARROW_LEFT, ARROW_RIGHT]\<rparr>)
        (handleRegisterMessage 1000 (\<lambda>_. 0) ''c1''
           (Some \<lparr>id' = ''t1'', name = ''target'', ip = ''10.0.0.5'', mac = None, type' = TARGET,
                  supportedCommands = [ARROW_LEFT, ARROW_RIGHT]\<rparr>)
           (handleConnection 950 ''c2'' (handleConnection 900 ''c1'' (newServer ''ctl'' emptyRegistry))))))
   = Some ''c1''"
  by (simp add: liveConnectionsOf_def getConnectionByDeviceId_def handleRegisterMessage_def
      handleConnection_def newServer_def sendMessage_def registerDevice_def connectDevice_def
      emptyRegistry_def findExistingId_def macString_def mergeDeviceInfo_def Let_def)

text \<open>
  C2, amended. For every register message with a valid target \<open>deviceInfo\<close>, handled on a
  connection of the table, the server binds that connection to the deviceId and records
  the connection's id in the device's registry record, replacing the one recorded before.
  Every other connection of the table is left exactly as it was, bound and open if it was
  so: several open connections can be bound to one deviceId, and the registry record names
  the latest.
\<close>

theorem handleRegisterMessage_binds:
  assumes "map_of (connections s) cid = Some c" and "ws_connectionId c = cid"
    and "id' info \<noteq> []" and "type' info = TARGET"
    and "s' = handleRegisterMessage now rnd cid (Some info) s"
  shows "map fst (connections s') = map fst (connections s)
       \<and> map_of (connections s') cid = Some (c\<lparr>ws_deviceId := Some (id' info)\<rparr>)
       \<and> (\<forall>k. k \<noteq> cid \<longrightarrow> map_of (connections s') k = map_of (connections s) k)
       \<and> (\<exists>d. getDeviceById (id' info) (deviceRegistry s') = Some d
              \<and> connectionId d = Some cid
              \<and> status d = (if paired d then PAIRED else CONNECTED))"
proof -
  obtain device r1 where reg: "registerDevice now rnd info True (deviceRegistry s) = (device, r1)"
    by (cases "registerDevice now rnd info True (deviceRegistry s)")
  have known: "map_of (devices r1) (id' info) = Some device"
    and ident: "id' (deviceInfo device) = id' info"
    using registerDevice_stores [of now rnd info True "deviceRegistry s"] reg by simp_all
  obtain res r2 where con: "connectDevice now (id' info) cid r1 = (res, r2)"
    by (cases "connectDevice now (id' info) cid r1")
  let ?d = "device\<lparr>status := (if paired device then PAIRED else CONNECTED),
                    connectionId := Some cid, lastSeen := now\<rparr>"
  have stored: "map_of (devices r2) (id' info) = Some ?d"
    using connectDevice_known [OF known, of now cid] con by simp
  let ?c' = "c\<lparr>ws_deviceId := Some (id' info)\<rparr>"
  have conns: "connections s' = AList.update cid ?c' (connections s)"
    and regs: "deviceRegistry s' = r2"
    using assms reg con ident
    by (simp_all add: handleRegisterMessage_def sendMessage_def Let_def)
  have 1: "map fst (connections s') = map fst (connections s)"
    using assms(1) by (simp add: conns keys_update_known)
  have 2: "map_of (connections s') cid = Some ?c'" by (simp add: conns map_of_update_same)
  have 3: "\<forall>k. k \<noteq> cid \<longrightarrow> map_of (connections s') k = map_of (connections s) k"
    by (simp add: conns update_other)
  have 4: "\<exists>d. getDeviceById (id' info) (deviceRegistry s') = Some d \<and> connectionId d = Some cid
             \<and> status d = (if paired d then PAIRED else CONNECTED)"
    using stored by (intro exI [of _ ?d]) (simp add: getDeviceById_def regs)
  show ?thesis using 1 2 3 4 by blast
qed

theorem handleRegisterMessage_binds_witness:
  "map_of (connections (handleRegisterMessage 1100 (\<lambda>_. 1) ''c2''
        (Some \<lparr>id' = ''t1'', name = ''target'', ip = ''10.0.0.5'', mac = None, type' = TARGET,
               supportedCommands = [ARROW_LEFT, ARROW_RIGHT]\<rparr>)
        (handleRegisterMessage 1000 (\<lambda>_. 0) ''c1''
           (Some \<lparr>id' = ''t1'', name = ''target'', ip = ''10.0.0.5'', mac = None, type' = TARGET,
                  supportedCommands = [ARROW_LEFT, ARROW_RIGHT]\<rparr>)
           (handleConnection 950 ''c2'' (handleConnection 900 ''c1'' (newServer ''ctl'' emptyRegistry)))))) ''c1''
   = Some \<lparr>ws_connectionId = ''c1'', ws_deviceId = Some ''t1'', isAlive = True,
            lastActivity = 900, readyOpen = True\<rparr>
   \<and> map_of (connections (handleRegisterMessage 1100 (\<lambda>_. 1) ''c2''
        (Some \<lparr>id' = ''t1'', name = ''target'', ip = ''10.0.0.5'', mac = None, type' = TARGET,
               supportedCommands = [ARROW_LEFT, ARROW_RIGHT]\<rparr>)
        (handleRegisterMessage 1000 (\<lambda>_. 0) ''c1''
           (Some \<lparr>id' = ''t1'', name = ''target'', ip = ''10.0.0.5'', mac = None, type' = TARGET,
                  supportedCommands = [ARROW_LEFT, ARROW_RIGHT]\<rparr>)
           (handleConnection 950 ''c2'' (handleConnection 900 ''c1'' (newServer ''ctl'' emptyRegistry)))))) ''c2''
   = Some \<lparr>ws_connectionId = ''c2'', ws_deviceId = Some ''t1'', isAlive = True,
            lastActivity = 950, readyOpen = True\<rparr>"
proof -
  let ?info = "\<lparr>id' = ''t1'', name = ''target'', ip = ''10.0.0.5'', mac = None, type' = TARGET,
                supportedCommands = [ARROW_LEFT, ARROW_RIGHT]\<rparr>"
  let ?s = "handleRegisterMessage 1000 (\<lambda>_. 0) ''c1'' (Some ?info)
              (handleConnection 950 ''c2'' (handleConnection 900 ''c1'' (newServer ''ctl'' emptyRegistry)))"
  let ?c1 = "\<lparr>ws_connectionId = ''c1'', ws_deviceId = Some ''t1'', isAlive = True,
              lastActivity = 900, readyOpen = True\<rparr>"
  let ?c2 = "\<lparr>ws_connectionId = ''c2'', ws_deviceId = None, isAlive = True,
              lastActivity = 950, readyOpen = True\<rparr>"
  have conns: "connections ?s = [(''c1'', ?c1), (''c2'', ?c2)]"
    by (simp add: handleRegisterMessage_def handleConnection_def newServer_def sendMessage_def
        registerDevice_def connectDevice_def emptyRegistry_def findExistingId_def macString_def Let_def)
  have look: "map_of (connections ?s) ''c2'' = Some ?c2" by (simp add: conns)
  from handleRegisterMessage_binds [OF look _ _ _ refl, of ?info 1100 "\<lambda>_. 1"]
  show ?thesis by (simp add: conns)
qed

section \<open>Control server: command dispatch\<close>

text \<open>
  C3. \<open>sendArrowCommand\<close> tests, in this order: the device is unknown; its status is
  neither \<open>CONNECTED\<close> nor \<open>PAIRED\<close>; it is not paired; the command type is not among its
  \<open>supportedCommands\<close>; no connection of the table is bound to the deviceId. The first test
  that fails decides the reason, the five reasons are pairwise different, and whenever the
  call fails the server state, with the messages written so far, is unchanged.
\<close>

theorem sendArrowCommand_preconditions:
  "(getDeviceById deviceId (deviceRegistry s) = None \<longrightarrow>
      sendArrowCommand now deviceId direction repeat holdTime s
        = (Inl (Rejected ''Device not found''), s))
   \<and> (\<forall>d. getDeviceById deviceId (deviceRegistry s) = Some d \<longrightarrow>
        (status d \<noteq> CONNECTED \<and> status d \<noteq> PAIRED \<longrightarrow>
           sendArrowCommand now deviceId direction repeat holdTime s
             = (Inl (Rejected ''Device not connected''), s))
      \<and> ((status d = CONNECTED \<or> status d = PAIRED) \<and> \<not> paired d \<longrightarrow>
           sendArrowCommand now deviceId direction repeat holdTime s
             = (Inl (Rejected ''Device not paired''), s))
      \<and> ((status d = CONNECTED \<or> status d = PAIRED) \<and> paired d
           \<and> (if direction = DirLeft then ARROW_LEFT else ARROW_RIGHT)
                \<notin> set (supportedCommands (deviceInfo d)) \<longrightarrow>
           sendArrowCommand now deviceId direction repeat holdTime s
             = (Inl (Rejected (''Device does not support command: ''
                  @ (if direction = DirLeft then ARROW_LEFT else ARROW_RIGHT))), s))
      \<and> ((status d = CONNECTED \<or> status d = PAIRED) \<and> paired d
           \<and> (if direction = DirLeft then ARROW_LEFT else ARROW_RIGHT)
                \<in> set (supportedCommands (deviceInfo d))
           \<and> getConnectionByDeviceId deviceId s = None \<longrightarrow>
           sendArrowCommand now deviceId direction repeat holdTime s
             = (Inl (Rejected ''No active connection for device''), s)))
   \<and> distinct [''Device not found'', ''Device not connected'', ''Device not paired'',
        ''Device does not support command: '' @ (if direction = DirLeft then ARROW_LEFT else ARROW_RIGHT),
        ''No active connection for device'']
   \<and> (\<forall>f. fst (sendArrowCommand now deviceId direction repeat holdTime s) = Inl f \<longrightarrow>
        snd (sendArrowCommand now deviceId direction repeat holdTime s) = s)"
proof (intro conjI allI impI)
  show "distinct [''Device not found'', ''Device not connected'', ''Device not paired'',
        ''Device does not support command: '' @ (if direction = DirLeft then ARROW_LEFT else ARROW_RIGHT),
        ''No active connection for device'']"
    by simp
next
  fix f
  assume "fst (sendArrowCommand now deviceId direction repeat holdTime s) = Inl f"
  then show "snd (sendArrowCommand now deviceId direction repeat holdTime s) = s"
    by (rule sendArrowCommand_failure_unchanged)
next
  assume "getDeviceById deviceId (deviceRegistry s) = None"
  then show "sendArrowCommand now deviceId direction repeat holdTime s
               = (Inl (Rejected ''Device not found''), s)"
    by (simp add: sendArrowCommand_def)
next
  fix d
  assume "getDeviceById deviceId (deviceRegistry s) = Some d"
    and "status d \<noteq> CONNECTED \<and> status d \<noteq> PAIRED"
  then show "sendArrowCommand now deviceId direction repeat holdTime s
               = (Inl (Rejected ''Device not connected''), s)"
    by (simp add: sendArrowCommand_def)
next
  fix d
  assume "getDeviceById deviceId (deviceRegistry s) = Some d"
    and "(status d = CONNECTED \<or> status d = PAIRED) \<and> \<not> paired d"
  then show "sendArrowCommand now deviceId direction repeat holdTime s
               = (Inl (Rejected ''Device not paired''), s)"
    by (auto simp: sendArrowCommand_def)
next
  fix d
  assume "getDeviceById deviceId (deviceRegistry s) = Some d"
    and "(status d = CONNECTED \<or> status d = PAIRED) \<and> paired d
           \<and> (if direction = DirLeft then ARROW_LEFT else ARROW_RIGHT)
                \<notin> set (supportedCommands (deviceInfo d))"
  then show "sendArrowCommand now deviceId direction repeat holdTime s
               = (Inl (Rejected (''Device does not support command: ''
                    @ (if direction = DirLeft then ARROW_LEFT else ARROW_RIGHT))), s)"
    unfolding sendArrowCommand_def Let_def by (cases direction) auto
next
  fix d
  assume "getDeviceById deviceId (deviceRegistry s) = Some d"
    and "(status d = CONNECTED \<or> status d = PAIRED) \<and> paired d
           \<and> (if direction = DirLeft then ARROW_LEFT else ARROW_RIGHT)
                \<in> set (supportedCommands (deviceInfo d))
           \<and> getConnectionByDeviceId deviceId s = None"
  then show "sendArrowCommand now deviceId direction repeat holdTime s
               = (Inl (Rejected ''No active connection for device''), s)"
    unfolding sendArrowCommand_def Let_def by (cases direction) auto
qed

theorem sendArrowCommand_preconditions_witness:
  "sendArrowCommand 2000 ''zz'' DirLeft None None
     (handleRegisterMessage 1000 (\<lambda>_. 0) ''c1''
        (Some \<lparr>id' = ''t1'', name = ''target'', ip = ''10.0.0.5'', mac = None, type' = TARGET,
               supportedCommands = [ARROW_LEFT]\<rparr>)
        (handleConnection 900 ''c1'' (newServer ''ctl'' emptyRegistry)))
   = (Inl (Rejected ''Device not found''),
      handleRegisterMessage 1000 (\<lambda>_. 0) ''c1''
        (Some \<lparr>id' = ''t1'', name = ''target'', ip = ''10.0.0.5'', mac = None, type' = TARGET,
               supportedCommands = [ARROW_LEFT]\<rparr>)
        (handleConnection 900 ''c1'' (newServer ''ctl'' emptyRegistry)))
   \<and> sendArrowCommand 2000 ''t1'' DirLeft None None
     (handleRegisterMessage 1000 (\<lambda>_. 0) ''c1''
        (Some \<lparr>id' = ''t1'', name = ''target'', ip = ''10.0.0.5'', mac = None, type' = TARGET,
               supportedCommands = [ARROW_LEFT]\<rparr>)
        (handleConnection 900 ''c1'' (newServer ''ctl'' emptyRegistry)))
   = (Inl (Rejected ''Device not paired''),
      handleRegisterMessage 1000 (\<lambda>_. 0) ''c1''
        (Some \<lparr>id' = ''t1'', name = ''target'', ip = ''10.0.0.5'', mac = None, type' = TARGET,
               supportedCommands = [ARROW_LEFT]\<rparr>)
        (handleConnection 900 ''c1'' (newServer ''ctl'' emptyRegistry)))
   \<and> fst (sendArrowCommand 2000 ''t1'' DirLeft None None
     (handleClose 1500 ''c1''
       (handleRegisterMessage 1000 (\<lambda>_. 0) ''c1''
        (Some \<lparr>id' = ''t1'', name = ''target'', ip = ''10.0.0.5'', mac = None, type' = TARGET,
               supportedCommands = [ARROW_LEFT]\<rparr>)
        (handleConnection 900 ''c1'' (newServer ''ctl'' emptyRegistry)))))
   = Inl (Rejected ''Device not connected'')
   \<and> fst (sendArrowCommand 2000 ''t1'' DirRight None None
     (handlePairingRequestMessage 1500 (\<lambda>_. 1) ''c1'' (Some (generateToken (\<lambda>_. 0)))
       (handleRegisterMessage 1000 (\<lambda>_. 0) ''c1''
        (Some \<lparr>id' = ''t1'', name = ''target'', ip = ''10.0.0.5'', mac = None, type' = TARGET,
               supportedCommands = [ARROW_LEFT]\<rparr>)
        (handleConnection 900 ''c1'' (newServer ''ctl'' emptyRegistry)))))
   = Inl (Rejected ''Device does not support command: arrow_right'')
   \<and> fst (sendArrowCommand 2000 ''t1'' DirLeft None None
     (newServer ''ctl''
       (snd (pairDevice 1500 (\<lambda>_. 1) ''t1'' (generateToken (\<lambda>_. 0))
         (snd (connectDevice 1200 ''t1'' ''c9''
           (snd (registerDevice 1000 (\<lambda>_. 0)
             \<lparr>id' = ''t1'', name = ''target'', ip = ''10.0.0.5'', mac = None, type' = TARGET,
              supportedCommands = [ARROW_LEFT]\<rparr> True emptyRegistry))))))))
   = Inl (Rejected ''No active connection for device'')"
proof -
  let ?info = "\<lparr>id' = ''t1'', name = ''target'', ip = ''10.0.0.5'', mac = None, type' = TARGET,
                supportedCommands = [ARROW_LEFT]\<rparr>"
  let ?s = "handleRegisterMessage 1000 (\<lambda>_. 0) ''c1'' (Some ?info)
              (handleConnection 900 ''c1'' (newServer ''ctl'' emptyRegistry))"
  let ?sc = "handleClose 1500 ''c1'' ?s"
  let ?sp = "handlePairingRequestMessage 1500 (\<lambda>_. 1) ''c1'' (Some (generateToken (\<lambda>_. 0))) ?s"
  let ?sn = "newServer ''ctl''
       (snd (pairDevice 1500 (\<lambda>_. 1) ''t1'' (generateToken (\<lambda>_. 0))
         (snd (connectDevice 1200 ''t1'' ''c9''
           (snd (registerDevice 1000 (\<lambda>_. 0) ?info True emptyRegistry))))))"
  let ?d = "\<lparr>deviceInfo = ?info, status = CONNECTED, lastSeen = 1000, firstSeen = 1000,
             connectionId = Some ''c1'', authToken = None, paired = False,
             pairingToken = Some (generateToken (\<lambda>_. 0)), pairingExpiration = Some 301000\<rparr>"
  have ne: "generateToken (\<lambda>_. 0) \<noteq> []" by (rule generateToken_nonempty)
  have conns: "connections ?s = [(''c1'', \<lparr>ws_connectionId = ''c1'', ws_deviceId = Some ''t1'',
                 isAlive = True, lastActivity = 900, readyOpen = True\<rparr>)]"
    and devs: "devices (deviceRegistry ?s) = [(''t1'', ?d)]"
    by (simp_all add: handleRegisterMessage_def handleConnection_def newServer_def sendMessage_def
        registerDevice_def connectDevice_def emptyRegistry_def findExistingId_def macString_def Let_def)
  have devsc: "devices (deviceRegistry ?sc)
                 = [(''t1'', ?d\<lparr>status := DISCONNECTED, connectionId := None, lastSeen := 1500\<rparr>)]"
    by (simp add: handleClose_def conns devs disconnectDevice_def Let_def)
  have devsp: "devices (deviceRegistry ?sp)
                 = [(''t1'', ?d\<lparr>authToken := Some (generateToken (\<lambda>_. 1)), paired := True,
                       pairingToken := None, pairingExpiration := None, status := PAIRED\<rparr>)]"
    using ne by (simp add: handlePairingRequestMessage_def conns devs pairDevice_def sendMessage_def
        Let_def)
  have devsn: "devices (deviceRegistry ?sn)
                 = [(''t1'', \<lparr>deviceInfo = ?info, status = PAIRED, lastSeen = 1200, firstSeen = 1000,
                      connectionId = Some ''c9'', authToken = Some (generateToken (\<lambda>_. 1)),
                      paired = True, pairingToken = None, pairingExpiration = None\<rparr>)]"
    and connsn: "connections ?sn = []"
    using ne by (simp_all add: newServer_def pairDevice_def connectDevice_def registerDevice_def
        emptyRegistry_def findExistingId_def macString_def Let_def)
  have 1: "sendArrowCommand 2000 ''zz'' DirLeft None None ?s = (Inl (Rejected ''Device not found''), ?s)"
    using sendArrowCommand_preconditions [of "''zz''" ?s 2000 DirLeft None None]
    by (simp add: getDeviceById_def devs)
  have 2: "sendArrowCommand 2000 ''t1'' DirLeft None None ?s = (Inl (Rejected ''Device not paired''), ?s)"
    using sendArrowCommand_preconditions [of "''t1''" ?s 2000 DirLeft None None]
    by (simp add: getDeviceById_def devs)
  have 3: "fst (sendArrowCommand 2000 ''t1'' DirLeft None None ?sc) = Inl (Rejected ''Device not connected'')"
    using sendArrowCommand_preconditions [of "''t1''" ?sc 2000 DirLeft None None]
    by (simp add: getDeviceById_def devsc)
  have arrows: "ARROW_RIGHT \<noteq> ARROW_LEFT" by (simp add: ARROW_LEFT_def ARROW_RIGHT_def)
  have "sendArrowCommand 2000 ''t1'' DirRight None None ?sp
          = (Inl (Rejected (''Device does not support command: '' @ ARROW_RIGHT)), ?sp)"
    using sendArrowCommand_preconditions [of "''t1''" ?sp 2000 DirRight None None] arrows
    by (simp add: getDeviceById_def devsp)
  then have 4: "fst (sendArrowCommand 2000 ''t1'' DirRight None None ?sp)
             = Inl (Rejected ''Device does not support command: arrow_right'')"
    by (simp add: ARROW_RIGHT_def)
  have 5: "fst (sendArrowCommand 2000 ''t1'' DirLeft None None ?sn)
             = Inl (Rejected ''No active connection for device'')"
    using sendArrowCommand_preconditions [of "''t1''" ?sn 2000 DirLeft None None]
    by (simp add: getDeviceById_def devsn connsn getConnectionByDeviceId_def)
  show ?thesis using 1 2 3 4 5 by blast
qed

section \<open>Control client: reconnection\<close>

lemma scheduleReconnect_pending:
  assumes "clientInv c"
  shows "pendingTimeouts (scheduleReconnect c)
           = [(nextHandle c, min (1000 * 2 ^ reconnectAttempts c) 30000)]"
    and "reconnectTimeoutId (scheduleReconnect c) = Some (nextHandle c)"
    and "reconnectAttempts (scheduleReconnect c) = reconnectAttempts c"
    and "maxReconnectAttempts (scheduleReconnect c) = maxReconnectAttempts c"
    and "ws (scheduleReconnect c) = ws c"
    and "client_status (scheduleReconnect c) = client_status c"
    and "controllerInfo (scheduleReconnect c) = controllerInfo c"
    and "autoConnect (scheduleReconnect c) = autoConnect c"
    and "warnings (scheduleReconnect c) = warnings c"
    and "nextHandle (scheduleReconnect c) = nextHandle c + 1"
  using assms
  by (auto simp: scheduleReconnect_def clearTimeout_def setTimeout_def clientInv_def Let_def
      split: option.splits)

lemma scheduleReconnect_inv: "clientInv c \<Longrightarrow> clientInv (scheduleReconnect c)"
  by (simp add: clientInv_def scheduleReconnect_pending)

lemma clientInv_disconnected:
  "clientInv c \<Longrightarrow> clientInv ((stopHeartbeat c)\<lparr>ws := None, client_status := DISCONNECTED\<rparr>)"
  by (simp add: clientInv_def stopHeartbeat_def)

text \<open>
  C7. Let a session of a client with auto-reconnect end unexpectedly after \<open>N - 1\<close> counted
  attempts. Then exactly one timer is pending and its delay is \<open>min (1000 * 2 ^ (N - 1)) 30000\<close>
  milliseconds. When it fires the counter becomes \<open>N\<close>. If \<open>N\<close> exceeds the maximum, no
  socket is opened, no timer is pending, and the warning that the client gives up is
  logged. Otherwise a connection is attempted with no timer pending, and if that attempt
  fails exactly one timer is pending again, with the counter still \<open>N\<close>, so that the next
  delay is \<open>min (1000 * 2 ^ N) 30000\<close>.
\<close>

theorem reconnect_backoff:
  assumes "clientInv c" and "autoConnect c" and "controllerInfo c \<noteq> None"
    and "N = reconnectAttempts c + 1"
    and "c1 = handleDisconnection c"
    and "c2 = reconnectTimerFired (nextHandle c) c1"
    and "c3 = reconnectAttemptFailed c2"
  shows "pendingTimeouts c1 = [(nextHandle c, min (1000 * 2 ^ (N - 1)) 30000)]
       \<and> client_status c1 = DISCONNECTED
       \<and> reconnectAttempts c2 = N
       \<and> pendingTimeouts c2 = []
       \<and> (if N > maxReconnectAttempts c
          then ws c2 = None \<and> client_status c2 = DISCONNECTED
               \<and> warnings c2 = warnings c @ [''Max reconnect attempts reached, giving up'']
          else ws c2 \<noteq> None \<and> client_status c2 = CONNECTING \<and> warnings c2 = warnings c
               \<and> reconnectAttempts c3 = N
               \<and> pendingTimeouts c3 = [(nextHandle c2 + 1, min (1000 * 2 ^ N) 30000)]
               \<and> clientInv c3 \<and> autoConnect c3 \<and> controllerInfo c3 \<noteq> None)"
proof -
  let ?c0 = "(stopHeartbeat c)\<lparr>ws := None, client_status := DISCONNECTED\<rparr>"
  have inv0: "clientInv ?c0" using assms(1) by (rule clientInv_disconnected)
  have c1: "c1 = scheduleReconnect ?c0"
    using assms(2,3,5) by (simp add: handleDisconnection_def stopHeartbeat_def Let_def)
  note s1 = scheduleReconnect_pending [OF inv0]
  have base: "nextHandle ?c0 = nextHandle c" "reconnectAttempts ?c0 = reconnectAttempts c"
    "maxReconnectAttempts ?c0 = maxReconnectAttempts c" "warnings ?c0 = warnings c"
    "controllerInfo ?c0 = controllerInfo c" "autoConnect ?c0 = autoConnect c"
    by (simp_all add: stopHeartbeat_def)
  have p1: "pendingTimeouts c1 = [(nextHandle c, min (1000 * 2 ^ (N - 1)) 30000)]"
    using s1(1) by (simp add: c1 base assms(4))
  have st1: "client_status c1 = DISCONNECTED" "ws c1 = None"
    using s1(5,6) by (simp_all add: c1)
  have f1: "reconnectAttempts c1 = reconnectAttempts c" "maxReconnectAttempts c1 = maxReconnectAttempts c"
    "warnings c1 = warnings c" "controllerInfo c1 = controllerInfo c" "autoConnect c1 = autoConnect c"
    "nextHandle c1 = nextHandle c + 1" "reconnectTimeoutId c1 = Some (nextHandle c)"
    using s1 by (simp_all add: c1 base)
  obtain cip port where info: "controllerInfo c = Some (cip, port)"
    using assms(3) by (cases "controllerInfo c") auto
  show ?thesis
  proof (cases "N > maxReconnectAttempts c")
    case True
    have c2: "c2 = c1\<lparr>pendingTimeouts := [], reconnectAttempts := N,
                warnings := warnings c @ [''Max reconnect attempts reached, giving up'']\<rparr>"
      using True p1 f1 assms(4,6) by (simp add: reconnectTimerFired_def Let_def)
    show ?thesis using True p1 st1 by (simp add: c2)
  next
    case False
    have c2: "c2 = c1\<lparr>pendingTimeouts := [], reconnectAttempts := N, client_status := CONNECTING,
                controllerInfo := Some (cip, port), ws := Some (nextHandle c + 1),
                nextHandle := nextHandle c + 2\<rparr>"
      using False p1 f1 st1 info assms(4,6)
      by (simp add: reconnectTimerFired_def connect_def Let_def)
    have f2: "reconnectAttempts c2 = N" "pendingTimeouts c2 = []" "ws c2 = Some (nextHandle c + 1)"
      "client_status c2 = CONNECTING" "warnings c2 = warnings c" "autoConnect c2"
      "controllerInfo c2 = Some (cip, port)"
      using f1 assms(2) by (simp_all add: c2)
    let ?d0 = "(stopHeartbeat c2)\<lparr>ws := None, client_status := DISCONNECTED\<rparr>"
    have inv2: "clientInv c2" by (simp add: f2 clientInv_def)
    have invd: "clientInv ?d0" using inv2 by (rule clientInv_disconnected)
    have fd: "reconnectAttempts ?d0 = N" "nextHandle ?d0 = nextHandle c2" "autoConnect ?d0"
      "controllerInfo ?d0 = Some (cip, port)"
      using f2 by (simp_all add: stopHeartbeat_def)
    have hd: "handleDisconnection c2 = scheduleReconnect ?d0"
      using f2 by (simp add: handleDisconnection_def stopHeartbeat_def Let_def)
    note s2 = scheduleReconnect_pending [OF invd]
    have invh: "clientInv (handleDisconnection c2)"
      unfolding hd using invd by (rule scheduleReconnect_inv)
    note s3 = scheduleReconnect_pending [OF invh]
    have c3: "c3 = scheduleReconnect (handleDisconnection c2)"
      using assms(7) by (simp add: reconnectAttemptFailed_def)
    have nh: "nextHandle (handleDisconnection c2) = nextHandle c2 + 1"
      unfolding hd using s2(10) fd by simp
    have ra: "reconnectAttempts (handleDisconnection c2) = N"
      unfolding hd using s2(3) fd by simp
    have oh: "autoConnect (handleDisconnection c2)"
      "controllerInfo (handleDisconnection c2) = Some (cip, port)"
      unfolding hd using s2(7,8) fd by simp_all
    have p3: "pendingTimeouts c3 = [(nextHandle c2 + 1, min (1000 * 2 ^ N) 30000)]"
      unfolding c3 using s3(1) nh ra by simp
    have a3: "reconnectAttempts c3 = N" unfolding c3 using s3(3) ra by simp
    have i3: "clientInv c3" unfolding c3 using invh by (rule scheduleReconnect_inv)
    have o3: "autoConnect c3" "controllerInfo c3 \<noteq> None"
      unfolding c3 using s3(7,8) oh by simp_all
    show ?thesis using False p1 st1 f2 p3 a3 i3 o3 by simp
  qed
qed

theorem reconnect_backoff_witness:
  "pendingTimeouts (handleDisconnection (newClient True ''127.0.0.1'' 8080)) = [(0, 1000)]
   \<and> pendingTimeouts (reconnectAttemptFailed
        (reconnectTimerFired 0 (handleDisconnection (newClient True ''127.0.0.1'' 8080))))
      = [(3, 2000)]
   \<and> pendingTimeouts (handleDisconnection
        ((newClient True ''127.0.0.1'' 8080)\<lparr>reconnectAttempts := 10\<rparr>)) = [(0, 30000)]
   \<and> pendingTimeouts (reconnectTimerFired 0 (handleDisconnection
        ((newClient True ''127.0.0.1'' 8080)\<lparr>reconnectAttempts := 10\<rparr>))) = []
   \<and> warnings (reconnectTimerFired 0 (handleDisconnection
        ((newClient True ''127.0.0.1'' 8080)\<lparr>reconnectAttempts := 10\<rparr>)))
      = [''Max reconnect attempts reached, giving up'']
   \<and> ws (reconnectTimerFired 0 (handleDisconnection
        ((newClient True ''127.0.0.1'' 8080)\<lparr>reconnectAttempts := 10\<rparr>))) = None"
proof -
  let ?a = "newClient True ''127.0.0.1'' 8080"
  let ?b = "?a\<lparr>reconnectAttempts := 10\<rparr>"
  have ia: "clientInv ?a" and ib: "clientInv ?b" by (simp_all add: clientInv_def newClient_def)
  have aa: "autoConnect ?a" "controllerInfo ?a \<noteq> None" "autoConnect ?b" "controllerInfo ?b \<noteq> None"
    by (simp_all add: newClient_def)
  have na: "nextHandle ?a = 0" "nextHandle ?b = 0" "reconnectAttempts ?a = 0"
    "reconnectAttempts ?b = 10" "maxReconnectAttempts ?a = 10" "maxReconnectAttempts ?b = 10"
    "warnings ?b = []"
    by (simp_all add: newClient_def)
  have h2: "nextHandle (reconnectTimerFired 0 (handleDisconnection ?a)) = 2"
    by (simp add: reconnectTimerFired_def handleDisconnection_def scheduleReconnect_def
        setTimeout_def stopHeartbeat_def connect_def newClient_def Let_def)
  from reconnect_backoff [OF ia aa(1,2) refl refl refl refl]
  have 1: "pendingTimeouts (handleDisconnection ?a) = [(0, 1000)]"
    and 2: "pendingTimeouts (reconnectAttemptFailed (reconnectTimerFired 0 (handleDisconnection ?a)))
              = [(3, 2000)]"
    by (simp_all add: na h2)
  from reconnect_backoff [OF ib aa(3,4) refl refl refl refl]
  have 3: "pendingTimeouts (handleDisconnection ?b) = [(0, 30000)]"
    and 4: "pendingTimeouts (reconnectTimerFired 0 (handleDisconnection ?b)) = []"
    and 5: "warnings (reconnectTimerFired 0 (handleDisconnection ?b))
              = [''Max reconnect attempts reached, giving up'']"
    and 6: "ws (reconnectTimerFired 0 (handleDisconnection ?b)) = None"
    by (simp_all add: na)
  show ?thesis using 1 2 3 4 5 6 by blast
qed

end
